theory Spec2Isabelle
  imports Complex_Main "HOL-Library.Sublist" "HOL-Library.Char_ord" "HOL-Library.List_Lexorder"
begin

section \<open>Configuration and data model of the downloader (getdata\_nikumaroro.py)\<close>

text \<open>
  The constants of the CONFIGURATION block. \<open>IMAGE_PX\<close> is the requested thumbnail
  size, \<open>START_YEAR\<close> and \<open>END_YEAR\<close> bound the loop of \<open>main\<close>.
\<close>

definition IMAGE_PX :: nat where
  "IMAGE_PX = 1024"

definition START_YEAR :: int where
  "START_YEAR = 2013"

definition END_YEAR :: int where
  "END_YEAR = 2024"

text \<open>
  An instant of UTC time, as Earth Engine's \<open>system:time_start\<close> denotes one. The source
  never computes with the millisecond count itself: it compares instants
  (\<open>filterDate\<close>) and prints the calendar date (\<open>date().format("YYYY-MM-dd")\<close>). The
  model keeps the civil fields and compares them lexicographically, which is the order
  of the millisecond counts on valid dates.
\<close>

datatype utc = UTC (year_of: int) (month_of: nat) (day_of: nat) (millis_of: nat)

fun utc_less :: "utc \<Rightarrow> utc \<Rightarrow> bool" where
  "utc_less (UTC y1 m1 d1 t1) (UTC y2 m2 d2 t2) =
     (y1 < y2 \<or> (y1 = y2 \<and> (m1 < m2 \<or> (m1 = m2 \<and> (d1 < d2 \<or> (d1 = d2 \<and> t1 < t2))))))"

definition utc_le :: "utc \<Rightarrow> utc \<Rightarrow> bool" where
  "utc_le a b = (a = b \<or> utc_less a b)"

text \<open>The two image collections the downloader reads.\<close>

datatype ee_source = Sentinel2 | Landsat8

text \<open>
  One image of a collection: its acquisition instant, its cloud percentage (the property
  \<open>CLOUDY_PIXEL_PERCENTAGE\<close> of Sentinel-2, \<open>CLOUD_COVER\<close> of Landsat 8), whether its
  footprint meets the region of interest (what \<open>filterBounds(roi)\<close> tests), and the
  identifier of the scene.
\<close>

record observation =
  time_start :: utc
  cloud :: real
  intersects_roi :: bool
  scene_id :: string

subsection \<open>Decimal strings\<close>

text \<open>Python's \<open>str\<close> of an integer, as the f-strings of the source format a year.\<close>

definition digit_char :: "nat \<Rightarrow> char" where
  "digit_char d = char_of (48 + d)"

function str_nat :: "nat \<Rightarrow> string" where
  "str_nat n = (if n < 10 then [digit_char n] else str_nat (n div 10) @ [digit_char (n mod 10)])"
  by pat_completeness auto
termination
  by (relation "measure id") auto

declare str_nat.simps [simp del]

definition str_int :: "int \<Rightarrow> string" where
  "str_int i = (if i < 0 then CHR ''-'' # str_nat (nat (- i)) else str_nat (nat i))"

text \<open>Zero padding to a width, as the date pattern \<open>YYYY-MM-dd\<close> pads its fields.\<close>

definition zero_pad :: "nat \<Rightarrow> string \<Rightarrow> string" where
  "zero_pad w s = replicate (w - length s) CHR ''0'' @ s"

definition format_date :: "utc \<Rightarrow> string" where
  "format_date t =
     zero_pad 4 (str_int (year_of t)) @ ''-'' @ zero_pad 2 (str_nat (month_of t)) @ ''-''
       @ zero_pad 2 (str_nat (day_of t))"

section \<open>Image selection\<close>

text \<open>
  The Earth Engine service as the downloader sees it: the content of the two
  collections, and whether the \<open>getInfo()\<close> round trips of the query for a source and
  a year are answered (an unanswered one raises \<open>ee.EEException\<close>, which \<open>main\<close> does
  not catch).
\<close>

record catalog =
  collection :: "ee_source \<Rightarrow> observation list"
  ee_answers :: "ee_source \<Rightarrow> int \<Rightarrow> bool"

datatype py_error =
  EEException | IndexError | TypeError | KeyError | UnidentifiedImageError | IsADirectoryError

text \<open>
  \<open>filterDate(start, end)\<close> of Earth Engine keeps the images with
  \<open>start \<le> system:time_start < end\<close>: the start is inclusive and the end is exclusive.
  A date string without a time of day denotes midnight UTC of that day.
\<close>

definition filterDate :: "utc \<Rightarrow> utc \<Rightarrow> observation list \<Rightarrow> observation list" where
  "filterDate start end xs =
     filter (\<lambda>ob. utc_le start (time_start ob) \<and> utc_less (time_start ob) end) xs"

definition filterBounds :: "observation list \<Rightarrow> observation list" where
  "filterBounds xs = filter intersects_roi xs"

text \<open>\<open>ee.Filter.lt(property, 30)\<close> on the cloud property of the collection.\<close>

definition filter_lt_cloud :: "real \<Rightarrow> observation list \<Rightarrow> observation list" where
  "filter_lt_cloud bound xs = filter (\<lambda>ob. cloud ob < bound) xs"

text \<open>
  The collection both selectors build: bounds, the date window from \<open>{year}-01-01\<close> to
  \<open>{year}-12-31\<close>, the cloud filter, and the ascending sort on the cloud property.
\<close>

definition year_collection :: "catalog \<Rightarrow> ee_source \<Rightarrow> int \<Rightarrow> observation list" where
  "year_collection cat src year =
     sort_key cloud
       (filter_lt_cloud 30
         (filterDate (UTC year 1 1 0) (UTC year 12 31 0)
           (filterBounds (collection cat src))))"

text \<open>
  \<open>get_best_sentinel2(year, roi)\<close> and \<open>get_best_landsat8(year, roi)\<close>: \<open>(None, None)\<close>
  when the collection is empty, else its first image and the date of that image.
\<close>

definition get_best :: "catalog \<Rightarrow> ee_source \<Rightarrow> int \<Rightarrow> py_error + (observation \<times> string) option" where
  "get_best cat src year =
     (if \<not> ee_answers cat src year then Inl EEException
      else
        let coll = year_collection cat src year;
            count = length coll
        in if count = 0 then Inr None
           else
             let img = hd coll;
                 date_str = format_date (time_start img)
             in Inr (Some (img, date_str)))"

definition get_best_sentinel2 :: "catalog \<Rightarrow> int \<Rightarrow> py_error + (observation \<times> string) option" where
  "get_best_sentinel2 cat year = get_best cat Sentinel2 year"

definition get_best_landsat8 :: "catalog \<Rightarrow> int \<Rightarrow> py_error + (observation \<times> string) option" where
  "get_best_landsat8 cat year = get_best cat Landsat8 year"

text \<open>
  The candidates of a source for a year that the selectors accept: in the bounds, in the
  date window of the source, and with a cloud percentage below 30.
\<close>

definition acceptable :: "catalog \<Rightarrow> ee_source \<Rightarrow> int \<Rightarrow> observation set" where
  "acceptable cat src year =
     {ob \<in> set (collection cat src).
        intersects_roi ob \<and> utc_le (UTC year 1 1 0) (time_start ob)
        \<and> utc_less (time_start ob) (UTC year 12 31 0) \<and> cloud ob < 30}"

section \<open>Download\<close>

record vis_params =
  bands :: "string list"
  vis_min :: int
  vis_max :: int
  gamma :: "real option"

definition S2_VIS :: vis_params where
  "S2_VIS = \<lparr>bands = [''B4'', ''B3'', ''B2''], vis_min = 0, vis_max = 3000,
     gamma = Some (14 / 10)\<rparr>"

definition L8_VIS :: vis_params where
  "L8_VIS = \<lparr>bands = [''SR_B4'', ''SR_B3'', ''SR_B2''], vis_min = 7000, vis_max = 30000,
     gamma = Some (14 / 10)\<rparr>"

text \<open>
  An HTTP response as the scripts read it: the status code, the \<open>Content-Type\<close> header
  (which may be absent) and the body.
\<close>

record response =
  status_code :: int
  content_type :: "string option"
  content :: string

text \<open>
  A decoded raster: \<open>np.array(img).shape[:2]\<close> is \<open>(img_height, img_width)\<close>. The pixel
  values are kept symbolic: what was decoded from a file, or the Lanczos resampling of
  another pixel array to a width and a height.
\<close>

datatype pixel_data = Decoded string | Lanczos pixel_data nat nat

record raster =
  img_height :: nat
  img_width :: nat
  img_data :: pixel_data

text \<open>
  What the scripts reach outside themselves, apart from the catalog:
  \<^item> \<open>thumb_url\<close>: \<open>getThumbURL\<close> for an image and its visualisation; \<open>None\<close> when Earth
    Engine raises;
  \<^item> \<open>http_get\<close>: \<open>requests.get\<close>; \<open>None\<close> when it raises (connection error or the
    timeout);
  \<^item> \<open>pil_verify\<close>: whether \<open>Image.open\<close> followed by \<open>verify()\<close> accepts the bytes;
  \<^item> \<open>pil_load\<close>: \<open>np.array(Image.open(...))\<close> on a file of these bytes; \<open>None\<close> when
    Pillow cannot identify them.
\<close>

record world =
  thumb_url :: "observation \<Rightarrow> vis_params \<Rightarrow> string option"
  http_get :: "string \<Rightarrow> response option"
  pil_verify :: "string \<Rightarrow> bool"
  pil_load :: "string \<Rightarrow> raster option"

text \<open>Python's \<open>sub in s\<close> on strings.\<close>

fun contains :: "string \<Rightarrow> string \<Rightarrow> bool" where
  "contains sub [] = (sub = [])"
| "contains sub (c # cs) = (prefix sub (c # cs) \<or> contains sub cs)"

text \<open>
  The line \<open>download_image\<close> ends with: nothing is printed when it returns \<open>True\<close>;
  \<open>Bad response (status, content type)\<close> comes from the explicit check, and
  \<open>Download failed\<close> from the exception handler, with the step that raised.
\<close>

datatype fetch_step = ThumbURL | Transport | Decode | Write

datatype fetch_outcome = Saved | BadResponse int string | DownloadFailed fetch_step

section \<open>Viewer configuration of the downloader\<close>

text \<open>The dictionary \<open>main\<close> appends to \<open>images_info\<close> for an accepted year.\<close>

record image_info =
  date :: string
  filename :: string
  aligned_filename :: string
  source :: string
  width :: nat
  height :: nat

record location =
  name :: string
  lat :: real
  lon :: real
  description :: string

definition TARAIA_LAT :: real where
  "TARAIA_LAT = - 4686167 / 1000000"

definition TARAIA_LON :: real where
  "TARAIA_LON = - 174498083 / 1000000"

definition taraia_location :: location where
  "taraia_location =
     \<lparr>name = ''Taraia Object, Nikumaroro Island'', lat = TARAIA_LAT, lon = TARAIA_LON,
      description = ''Suspected location of Amelia Earhart's Lockheed Electra 10E''\<rparr>"

text \<open>\<open>config["metadata"]["date_range"]\<close>, with its keys \<open>start\<close> and \<open>end\<close>.\<close>

record date_range =
  dr_start :: string
  dr_end :: string

record metadata =
  generated :: string
  total_images :: nat
  date_range :: date_range

record manifest =
  config_location :: location
  images :: "image_info list"
  config_metadata :: metadata

text \<open>
  The dictionaries of the analysis script (nikumaroro\_analysis.py) do not all have the
  same keys (\<open>timestamp\<close> only on Earth Engine images, \<open>zoom\<close> only on tiles) and the
  script reads them with \<open>get\<close> and a default: they are maps from key to value.
\<close>

datatype jval = is_JInt: JInt (int_of: int) | is_JStr: JStr (str_of: string)

type_synonym frame = "string \<rightharpoonup> jval"

record legacy_config =
  legacy_location :: location
  legacy_images :: "frame list"
  legacy_generated :: string
  legacy_total_images :: nat
  legacy_start :: jval
  legacy_end :: jval

text \<open>
  The output directory, as a map from the name of a file in it to what the file holds:
  bytes written from a response, a raster saved by Pillow, or a configuration dumped as
  JSON. A name is a single path component. Writing to a file of the directory is taken
  to succeed.
\<close>

datatype file_content =
  Bytes string | Raster raster | Config manifest | LegacyConfig legacy_config

type_synonym output_dir = "string \<rightharpoonup> file_content"

text \<open>
  The names that denote a directory and not a file in it: \<open>OUTPUT_DIR / ""\<close> and
  \<open>OUTPUT_DIR / "."\<close> are the output directory itself, which the scripts create when
  they are loaded, and \<open>OUTPUT_DIR / ".."\<close> is its parent. Such a path exists; opening
  it, for reading or for writing, raises \<open>IsADirectoryError\<close>.
\<close>

definition names_directory :: "string \<Rightarrow> bool" where
  "names_directory fname = (fname = [] \<or> fname = ''.'' \<or> fname = ''..'')"

definition download_image ::
  "world \<Rightarrow> output_dir \<Rightarrow> observation \<Rightarrow> vis_params \<Rightarrow> string \<Rightarrow> fetch_outcome \<times> output_dir" where
  "download_image w dir img vis fname =
     (case thumb_url w img vis of
        None \<Rightarrow> (DownloadFailed ThumbURL, dir)
      | Some url \<Rightarrow>
          (case http_get w url of
             None \<Rightarrow> (DownloadFailed Transport, dir)
           | Some resp \<Rightarrow>
               let ctype = (case content_type resp of None \<Rightarrow> [] | Some c \<Rightarrow> c)
               in if status_code resp \<noteq> 200 \<or> \<not> contains ''image'' ctype
                  then (BadResponse (status_code resp) ctype, dir)
                  else if \<not> pil_verify w (content resp)
                  then (DownloadFailed Decode, dir)
                  else if names_directory fname
                  then (DownloadFailed Write, dir)
                  else (Saved, dir(fname \<mapsto> Bytes (content resp)))))"

text \<open>The boolean \<open>download_image\<close> returns.\<close>

definition ok_of :: "fetch_outcome \<Rightarrow> bool" where
  "ok_of outcome = (outcome = Saved)"

text \<open>
  \<open>write_viewer_config(images_info)\<close>; \<open>now\<close> is \<open>datetime.now().isoformat()\<close>.
  \<open>list.sort\<close> of Python is stable, as \<open>sort_key\<close> is; the key \<open>x["date"]\<close> is a string
  and strings compare lexicographically.
\<close>

definition write_viewer_config ::
  "string \<Rightarrow> image_info list \<Rightarrow> output_dir \<Rightarrow> manifest \<times> output_dir" where
  "write_viewer_config now infos dir =
     (let sorted_infos = sort_key date infos;
          config =
            \<lparr>config_location = taraia_location,
             images = sorted_infos,
             config_metadata =
               \<lparr>generated = now,
                total_images = length sorted_infos,
                date_range =
                  \<lparr>dr_start = (if sorted_infos \<noteq> [] then date (hd sorted_infos) else ''unknown''),
                   dr_end = (if sorted_infos \<noteq> [] then date (last sorted_infos) else ''unknown'')\<rparr>\<rparr>\<rparr>
      in (config, dir(''viewer_config.json'' \<mapsto> Config config)))"

section \<open>The loop of \<open>main\<close>\<close>

text \<open>
  What the selection block of one iteration (the assignments from
  \<open>image, date_str, source_label, vis_params, filename = None, ...\<close> to the Landsat
  fallback) leaves in its five variables when an image was found.
\<close>

record selection =
  sel_image :: observation
  sel_date :: string
  sel_label :: string
  sel_vis :: vis_params
  sel_filename :: string

text \<open>
  The selection block. Beside the variables it returns the calls it made to
  \<open>get_best_sentinel2\<close> and \<open>get_best_landsat8\<close>, in order.
\<close>

definition select_year ::
  "catalog \<Rightarrow> int \<Rightarrow> py_error + (selection option \<times> (ee_source \<times> int) list)" where
  "select_year cat year =
     (case (if 2015 \<le> year
            then (case get_best_sentinel2 cat year of
                    Inl e \<Rightarrow> Inl e
                  | Inr None \<Rightarrow> Inr (None, [(Sentinel2, year)])
                  | Inr (Some (img, date_str)) \<Rightarrow>
                      Inr (Some \<lparr>sel_image = img, sel_date = date_str,
                                 sel_label = ''Sentinel-2'', sel_vis = S2_VIS,
                                 sel_filename = ''sentinel2_'' @ str_int year @ ''.png''\<rparr>,
                           [(Sentinel2, year)]))
            else Inr (None, [])) of
        Inl e \<Rightarrow> Inl e
      | Inr (Some s, qs) \<Rightarrow> Inr (Some s, qs)
      | Inr (None, qs) \<Rightarrow>
          (case get_best_landsat8 cat year of
             Inl e \<Rightarrow> Inl e
           | Inr None \<Rightarrow> Inr (None, qs @ [(Landsat8, year)])
           | Inr (Some (img, date_str)) \<Rightarrow>
               Inr (Some \<lparr>sel_image = img, sel_date = date_str,
                          sel_label = ''Landsat 8'', sel_vis = L8_VIS,
                          sel_filename = ''landsat8_'' @ str_int year @ ''.png''\<rparr>,
                    qs @ [(Landsat8, year)])))"

text \<open>
  The state of the loop: the two lists of \<open>main\<close>, the output directory, and the log of
  the catalog queries made so far.
\<close>

record run =
  images_info :: "image_info list"
  failed_years :: "int list"
  files :: output_dir
  queries :: "(ee_source \<times> int) list"

text \<open>The dictionary appended to \<open>images_info\<close> after a successful download.\<close>

definition info_of :: "selection \<Rightarrow> image_info" where
  "info_of s =
     \<lparr>date = sel_date s, filename = sel_filename s, aligned_filename = sel_filename s,
      source = sel_label s, width = IMAGE_PX, height = IMAGE_PX\<rparr>"

text \<open>One iteration of \<open>for year in range(START_YEAR, END_YEAR + 1)\<close>.\<close>

definition main_year :: "catalog \<Rightarrow> world \<Rightarrow> int \<Rightarrow> run \<Rightarrow> py_error + run" where
  "main_year cat w year st =
     (case select_year cat year of
        Inl e \<Rightarrow> Inl e
      | Inr (None, qs) \<Rightarrow>
          Inr (st\<lparr>failed_years := failed_years st @ [year], queries := queries st @ qs\<rparr>)
      | Inr (Some s, qs) \<Rightarrow>
          (case download_image w (files st) (sel_image s) (sel_vis s) (sel_filename s) of
             (outcome, dir) \<Rightarrow>
               if ok_of outcome
               then Inr (st\<lparr>images_info := images_info st @ [info_of s],
                             files := dir, queries := queries st @ qs\<rparr>)
               else Inr (st\<lparr>failed_years := failed_years st @ [year], files := dir,
                             queries := queries st @ qs\<rparr>)))"

fun main_loop :: "catalog \<Rightarrow> world \<Rightarrow> int list \<Rightarrow> run \<Rightarrow> py_error + run" where
  "main_loop cat w [] st = Inr st"
| "main_loop cat w (year # years) st =
     (case main_year cat w year st of
        Inl e \<Rightarrow> Inl e
      | Inr st' \<Rightarrow> main_loop cat w years st')"

text \<open>
  What the iteration of a year appends to \<open>images_info\<close>, if anything: the result of
  its selection and of its download, which do not read the state of the loop.
\<close>

definition year_result :: "catalog \<Rightarrow> world \<Rightarrow> int \<Rightarrow> image_info option" where
  "year_result cat w year =
     (case select_year cat year of
        Inl e \<Rightarrow> None
      | Inr (None, qs) \<Rightarrow> None
      | Inr (Some s, qs) \<Rightarrow>
          if ok_of (fst (download_image w Map.empty (sel_image s) (sel_vis s) (sel_filename s)))
          then Some (info_of s) else None)"

definition initial_run :: "output_dir \<Rightarrow> run" where
  "initial_run dir = \<lparr>images_info = [], failed_years = [], files = dir, queries = []\<rparr>"

text \<open>
  \<open>main\<close>, from \<open>roi = get_roi()\<close> on: the loop, then the configuration when at least one
  image was saved. It returns the configuration written, if any, and the final state.
\<close>

definition main :: "catalog \<Rightarrow> world \<Rightarrow> string \<Rightarrow> output_dir \<Rightarrow> py_error + (manifest option \<times> run)" where
  "main cat w now dir =
     (case main_loop cat w [START_YEAR..END_YEAR] (initial_run dir) of
        Inl e \<Rightarrow> Inl e
      | Inr st \<Rightarrow>
          if images_info st \<noteq> []
          then (case write_viewer_config now (images_info st) (files st) of
                  (config, dir') \<Rightarrow> Inr (Some config, st\<lparr>files := dir'\<rparr>))
          else Inr (None, st))"

section \<open>The analysis script (nikumaroro\_analysis.py)\<close>

text \<open>
  The \<open>try\<close> block in the loop of \<open>download_sentinel2_images\<close>, for one image of the
  collection with its date string and its timestamp: the thumbnail is requested, and
  the body of a response with status 200 is written and recorded. An exception is
  caught and printed; nothing is recorded then.
\<close>

definition legacy_vis :: vis_params where
  "legacy_vis = \<lparr>bands = [''B4'', ''B3'', ''B2''], vis_min = 0, vis_max = 3000, gamma = None\<rparr>"

definition download_sentinel2_step ::
  "world \<Rightarrow> output_dir \<Rightarrow> observation \<Rightarrow> string \<Rightarrow> int \<Rightarrow> frame option \<times> output_dir" where
  "download_sentinel2_step w dir img date_str date_ms =
     (case thumb_url w img legacy_vis of
        None \<Rightarrow> (None, dir)
      | Some url \<Rightarrow>
          (case http_get w url of
             None \<Rightarrow> (None, dir)
           | Some resp \<Rightarrow>
               if status_code resp = 200
               then let fname = ''sentinel2_'' @ filter (\<lambda>c. c \<noteq> CHR ''-'') date_str @ ''.png''
                    in (Some [''date'' \<mapsto> JStr date_str, ''timestamp'' \<mapsto> JInt date_ms,
                              ''filename'' \<mapsto> JStr fname, ''source'' \<mapsto> JStr ''Sentinel-2''],
                        dir(fname \<mapsto> Bytes (content resp)))
               else (None, dir)))"

subsection \<open>Alignment\<close>

text \<open>
  \<open>Image.open\<close> and \<open>np.array\<close> on a file of the output directory; \<open>None\<close> when Pillow
  raises.
\<close>

definition open_raster :: "world \<Rightarrow> file_content \<Rightarrow> raster option" where
  "open_raster w file =
     (case file of
        Bytes b \<Rightarrow> pil_load w b
      | Raster r \<Rightarrow> Some r
      | Config c \<Rightarrow> None
      | LegacyConfig c \<Rightarrow> None)"

text \<open>
  The first loop of \<open>align_images\<close>: the images of the entries whose file exists, in
  order. \<open>info['filename']\<close> raises \<open>KeyError\<close> on a missing key, and joining a path with
  an integer raises \<open>TypeError\<close>. A name that denotes a directory exists, and \<open>Image.open\<close>
  raises \<open>IsADirectoryError\<close> on it.
\<close>

fun load_images :: "world \<Rightarrow> output_dir \<Rightarrow> frame list \<Rightarrow> py_error + raster list" where
  "load_images w dir [] = Inr []"
| "load_images w dir (info # infos) =
     (case info ''filename'' of
        None \<Rightarrow> Inl KeyError
      | Some (JInt i) \<Rightarrow> Inl TypeError
      | Some (JStr fname) \<Rightarrow>
          if names_directory fname then Inl IsADirectoryError
          else
            (case dir fname of
               None \<Rightarrow> load_images w dir infos
             | Some file \<Rightarrow>
                 (case open_raster w file of
                    None \<Rightarrow> Inl UnidentifiedImageError
                  | Some img \<Rightarrow>
                      (case load_images w dir infos of
                         Inl e \<Rightarrow> Inl e
                       | Inr imgs \<Rightarrow> Inr (img # imgs)))))"

definition shape :: "raster \<Rightarrow> nat \<times> nat" where
  "shape img = (img_height img, img_width img)"

text \<open>\<open>pil_img.resize((ref_width, ref_height), Image.Resampling.LANCZOS)\<close>.\<close>

definition resize :: "raster \<Rightarrow> nat \<Rightarrow> nat \<Rightarrow> raster" where
  "resize img w h = \<lparr>img_height = h, img_width = w, img_data = Lanczos (img_data img) w h\<rparr>"

text \<open>The conditional at the head of the second loop.\<close>

definition align_one :: "nat \<times> nat \<Rightarrow> raster \<Rightarrow> raster" where
  "align_one ref img =
     (case ref of (ref_height, ref_width) \<Rightarrow>
        if shape img \<noteq> (ref_height, ref_width) then resize img ref_width ref_height else img)"

text \<open>How an f-string prints a value.\<close>

fun fstring :: "jval \<Rightarrow> string" where
  "fstring (JInt i) = str_int i"
| "fstring (JStr s) = s"

text \<open>
  The second loop: image \<open>i\<close> is paired with \<open>images_info[i]\<close>. The names of the files
  are names in the output directory itself, so \<open>aligned_path.name\<close> is the name built.
\<close>

fun align_loop ::
  "nat \<times> nat \<Rightarrow> raster list \<Rightarrow> frame list \<Rightarrow> output_dir \<Rightarrow> py_error + (frame list \<times> output_dir)" where
  "align_loop ref [] infos dir = Inr ([], dir)"
| "align_loop ref (img # imgs) [] dir = Inl IndexError"
| "align_loop ref (img # imgs) (info # infos) dir =
     (case info ''filename'' of
        None \<Rightarrow> Inl KeyError
      | Some v \<Rightarrow>
          (let aligned_name = ''aligned_'' @ fstring v;
               dir' = dir(aligned_name \<mapsto> Raster (align_one ref img))
           in case align_loop ref imgs infos dir' of
                Inl e \<Rightarrow> Inl e
              | Inr (out, dir'') \<Rightarrow>
                  Inr (info(''aligned_filename'' \<mapsto> JStr aligned_name,
                            ''width'' \<mapsto> JInt (int (snd ref)),
                            ''height'' \<mapsto> JInt (int (fst ref))) # out, dir'')))"

definition align_images ::
  "world \<Rightarrow> output_dir \<Rightarrow> frame list \<Rightarrow> py_error + (frame list \<times> output_dir)" where
  "align_images w dir infos =
     (if infos = [] then Inr ([], dir)
      else case load_images w dir infos of
             Inl e \<Rightarrow> Inl e
           | Inr imgs \<Rightarrow>
               if imgs = [] then Inr ([], dir)
               else align_loop (shape (hd imgs)) imgs infos dir)"

subsection \<open>Viewer configuration of the analysis script\<close>

fun truthy :: "jval \<Rightarrow> bool" where
  "truthy (JInt i) = (i \<noteq> 0)"
| "truthy (JStr s) = (s \<noteq> [])"

definition dict_get :: "frame \<Rightarrow> string \<Rightarrow> jval \<Rightarrow> jval" where
  "dict_get x k d = (case x k of None \<Rightarrow> d | Some v \<Rightarrow> v)"

definition py_or :: "jval \<Rightarrow> jval \<Rightarrow> jval" where
  "py_or a b = (if truthy a then a else b)"

text \<open>The key of the sort: \<open>x.get('timestamp', 0) or x.get('date', '')\<close>.\<close>

definition frame_key :: "frame \<Rightarrow> jval" where
  "frame_key x = py_or (dict_get x ''timestamp'' (JInt 0)) (dict_get x ''date'' (JStr []))"

text \<open>
  \<open>aligned_images.sort(key=...)\<close>. Integers compare with integers and strings with
  strings; Python raises \<open>TypeError\<close> when it compares an integer with a string, which
  a sort of keys of both kinds must do.
\<close>

definition sort_frames :: "frame list \<Rightarrow> py_error + frame list" where
  "sort_frames xs =
     (if list_all (\<lambda>x. is_JInt (frame_key x)) xs
      then Inr (sort_key (\<lambda>x. int_of (frame_key x)) xs)
      else if list_all (\<lambda>x. is_JStr (frame_key x)) xs
      then Inr (sort_key (\<lambda>x. str_of (frame_key x)) xs)
      else Inl TypeError)"

text \<open>
  \<open>create_viewer_config(aligned_images)\<close>: \<open>aligned_images[0]\<close> raises \<open>IndexError\<close> on an
  empty list.
\<close>

definition create_viewer_config ::
  "string \<Rightarrow> frame list \<Rightarrow> output_dir \<Rightarrow> py_error + (legacy_config \<times> output_dir)" where
  "create_viewer_config now aligned_images dir =
     (case sort_frames aligned_images of
        Inl e \<Rightarrow> Inl e
      | Inr sorted_images \<Rightarrow>
          if sorted_images = [] then Inl IndexError
          else
            let config =
                  \<lparr>legacy_location = taraia_location,
                   legacy_images = sorted_images,
                   legacy_generated = now,
                   legacy_total_images = length sorted_images,
                   legacy_start = dict_get (hd sorted_images) ''date'' (JStr ''unknown''),
                   legacy_end = dict_get (last sorted_images) ''date'' (JStr ''unknown'')\<rparr>
            in Inr (config, dir(''viewer_config.json'' \<mapsto> LegacyConfig config)))"

text \<open>
  \<open>main\<close> of the analysis script from its step 3 on: the images are aligned, and the
  configuration is created only when the aligned list is not empty.
\<close>

definition analysis_main ::
  "world \<Rightarrow> string \<Rightarrow> output_dir \<Rightarrow> frame list \<Rightarrow> py_error + (legacy_config option \<times> output_dir)" where
  "analysis_main w now dir all_images =
     (case align_images w dir all_images of
        Inl e \<Rightarrow> Inl e
      | Inr (aligned_images, dir') \<Rightarrow>
          if aligned_images \<noteq> []
          then (case create_viewer_config now aligned_images dir' of
                  Inl e \<Rightarrow> Inl e
                | Inr (config, dir'') \<Rightarrow> Inr (Some config, dir''))
          else Inr (None, dir'))"

section \<open>Concrete inputs\<close>

text \<open>
  A Sentinel-2 collection with three images of 2020 over the region: 12.5 percent of
  cloud in March, 3.2 percent in July, 45 percent in August. The Landsat collection is
  empty.
\<close>

definition obs_march :: observation where
  "obs_march = \<lparr>time_start = UTC 2020 3 5 100, cloud = 25 / 2, intersects_roi = True,
     scene_id = ''20200305T000000''\<rparr>"

definition obs_july :: observation where
  "obs_july = \<lparr>time_start = UTC 2020 7 1 0, cloud = 16 / 5, intersects_roi = True,
     scene_id = ''20200701T000000''\<rparr>"

definition obs_august :: observation where
  "obs_august = \<lparr>time_start = UTC 2020 8 1 0, cloud = 45, intersects_roi = True,
     scene_id = ''20200801T000000''\<rparr>"

definition catalog_2020 :: catalog where
  "catalog_2020 =
     \<lparr>collection = (\<lambda>src. case src of Sentinel2 \<Rightarrow> [obs_march, obs_july, obs_august]
                                     | Landsat8 \<Rightarrow> []),
      ee_answers = (\<lambda>src y. True)\<rparr>"

text \<open>
  A clear image (5 percent of cloud) taken over the region at 10:00 UTC on
  31 December 2020, alone in both collections.
\<close>

definition obs_dec31 :: observation where
  "obs_dec31 = \<lparr>time_start = UTC 2020 12 31 36000000, cloud = 5, intersects_roi = True,
     scene_id = ''20201231T100000''\<rparr>"

definition catalog_dec31 :: catalog where
  "catalog_dec31 = \<lparr>collection = (\<lambda>src. [obs_dec31]), ee_answers = (\<lambda>src y. True)\<rparr>"

text \<open>
  A world where every thumbnail request is answered with status 200, the content type
  \<open>image/png\<close> and bytes that Pillow accepts.
\<close>

definition png_response :: response where
  "png_response = \<lparr>status_code = 200, content_type = Some ''image/png'',
     content = ''PNG-IHDR-IDAT-IEND''\<rparr>"

definition world_png :: world where
  "world_png =
     \<lparr>thumb_url = (\<lambda>img vis. Some (''https://earthengine.example/thumb/'' @ scene_id img)),
      http_get = (\<lambda>url. Some png_response),
      pil_verify = (\<lambda>b. b = ''PNG-IHDR-IDAT-IEND''),
      pil_load = (\<lambda>b. if b = ''PNG-IHDR-IDAT-IEND''
                       then Some \<lparr>img_height = 1024, img_width = 1024, img_data = Decoded b\<rparr>
                       else None)\<rparr>"

text \<open>
  A world where the server answers every request with status 200 and an HTML error
  page.
\<close>

definition html_response :: response where
  "html_response = \<lparr>status_code = 200, content_type = Some ''text/html'',
     content = ''<html>quota exceeded</html>''\<rparr>"

definition world_html :: world where
  "world_html = world_png\<lparr>http_get := (\<lambda>url. Some html_response)\<rparr>"

text \<open>
  A world where the server answers with status 200, the content type \<open>image/png\<close> and
  a PNG cut short, which Pillow rejects.
\<close>

definition truncated_response :: response where
  "truncated_response = \<lparr>status_code = 200, content_type = Some ''image/png'',
     content = ''PNG-IHDR-ID''\<rparr>"

definition world_truncated :: world where
  "world_truncated = world_png\<lparr>http_get := (\<lambda>url. Some truncated_response)\<rparr>"

text \<open>
  A world where the server answers with status 200, the content type \<open>image/jpeg\<close> and
  a JPEG cut short in its scan data: \<open>verify()\<close> accepts these bytes, and loading the
  image fails.
\<close>

definition cut_jpeg_response :: response where
  "cut_jpeg_response = \<lparr>status_code = 200, content_type = Some ''image/jpeg'',
     content = ''JPEG-SOI-SOF0-SOS-scan-cut''\<rparr>"

definition world_cut_jpeg :: world where
  "world_cut_jpeg =
     world_png\<lparr>http_get := (\<lambda>url. Some cut_jpeg_response), pil_verify := (\<lambda>b. True),
       pil_load := (\<lambda>b. None)\<rparr>"

text \<open>A Landsat 8 collection with one clear image of 2013; no Sentinel-2 image.\<close>

definition obs_2013 :: observation where
  "obs_2013 = \<lparr>time_start = UTC 2013 7 10 0, cloud = 8, intersects_roi = True,
     scene_id = ''LC08_20130710''\<rparr>"

definition catalog_2013 :: catalog where
  "catalog_2013 =
     \<lparr>collection = (\<lambda>src. case src of Sentinel2 \<Rightarrow> [] | Landsat8 \<Rightarrow> [obs_2013]),
      ee_answers = (\<lambda>src y. True)\<rparr>"

text \<open>An accepted frame of the downloader with a given date.\<close>

definition dated_info :: "string \<Rightarrow> image_info" where
  "dated_info d = \<lparr>date = d, filename = ''sentinel2_'' @ take 4 d @ ''.png'',
     aligned_filename = ''sentinel2_'' @ take 4 d @ ''.png'', source = ''Sentinel-2'',
     width = 1024, height = 1024\<rparr>"

text \<open>
  Two Earth Engine frames of the analysis script taken on the same day, the first at
  noon and the second in the morning.
\<close>

definition frame_noon :: frame where
  "frame_noon = [''date'' \<mapsto> JStr ''2020-07-01'', ''timestamp'' \<mapsto> JInt 1593604800000,
     ''filename'' \<mapsto> JStr ''sentinel2_20200701.png'', ''source'' \<mapsto> JStr ''Sentinel-2'']"

definition frame_morning :: frame where
  "frame_morning = [''date'' \<mapsto> JStr ''2020-07-01'', ''timestamp'' \<mapsto> JInt 1593590400000,
     ''filename'' \<mapsto> JStr ''sentinel2_20200701.png'', ''source'' \<mapsto> JStr ''Sentinel-2'']"

text \<open>
  A frame as \<open>download_static_satellite_tiles\<close> builds it, with no timestamp, for a
  date and the file of that name.
\<close>

definition tile_frame :: "string \<Rightarrow> frame" where
  "tile_frame d = [''date'' \<mapsto> JStr d, ''filename'' \<mapsto> JStr (d @ ''.png''),
     ''source'' \<mapsto> JStr ''esri_world'', ''zoom'' \<mapsto> JInt 18]"






section \<open>Properties of the selection\<close>

lemma set_year_collection:
  "set (year_collection cat src year) = acceptable cat src year"
  by (auto simp: year_collection_def filter_lt_cloud_def filterDate_def filterBounds_def
      acceptable_def)

lemma sorted_year_collection:
  "sorted (map cloud (year_collection cat src year))"
  by (simp add: year_collection_def)

lemma hd_sorted_least:
  assumes "sorted (map f xs)" and "x \<in> set xs"
  shows "f (hd xs) \<le> f x"
  using assms by (cases xs) auto

lemma year_collection_2020:
  "year_collection catalog_2020 Sentinel2 2020 = [obs_july, obs_march]"
  by (simp add: catalog_2020_def year_collection_def filterBounds_def filterDate_def
      filter_lt_cloud_def obs_march_def obs_july_def obs_august_def utc_le_def)

lemma year_collection_2020_landsat:
  "year_collection catalog_2020 Landsat8 2020 = []"
  by (simp add: catalog_2020_def year_collection_def filterBounds_def filterDate_def
      filter_lt_cloud_def)

text \<open>
  C1. Both selectors, \<open>get_best_sentinel2\<close> and \<open>get_best_landsat8\<close>, answer for a year
  from the images of their collection that meet the region, lie in the date window and
  have a cloud percentage strictly below 30. When there is none, the selector returns
  \<open>(None, None)\<close>; otherwise it returns one of them, with its date, whose cloud
  percentage is the least of them all.
\<close>

theorem selectors_least_cloudy:
  assumes "ee_answers cat src year"
  shows "(case src of Sentinel2 \<Rightarrow> get_best_sentinel2 cat year
                    | Landsat8 \<Rightarrow> get_best_landsat8 cat year) = get_best cat src year \<and>
         (acceptable cat src year = {} \<longrightarrow> get_best cat src year = Inr None) \<and>
         (acceptable cat src year \<noteq> {} \<longrightarrow>
            (\<exists>img. get_best cat src year = Inr (Some (img, format_date (time_start img)))
               \<and> img \<in> acceptable cat src year \<and> cloud img < 30
               \<and> (\<forall>ob \<in> acceptable cat src year. cloud img \<le> cloud ob)))"
proof -
  have names: "(case src of Sentinel2 \<Rightarrow> get_best_sentinel2 cat year
                          | Landsat8 \<Rightarrow> get_best_landsat8 cat year) = get_best cat src year"
    by (cases src) (simp_all add: get_best_sentinel2_def get_best_landsat8_def)
  show ?thesis
  proof (cases "year_collection cat src year")
    case Nil
    then have "acceptable cat src year = {}"
      using set_year_collection [of cat src year] by simp
    with Nil assms names show ?thesis by (simp add: get_best_def)
  next
    case (Cons x xs)
    then have mem: "x \<in> acceptable cat src year"
      using set_year_collection [of cat src year] by auto
    have least: "cloud x \<le> cloud ob" if "ob \<in> acceptable cat src year" for ob
    proof -
      from that have "ob \<in> set (year_collection cat src year)"
        by (simp add: set_year_collection)
      from hd_sorted_least [OF sorted_year_collection this] show ?thesis
        by (simp add: Cons)
    qed
    have "get_best cat src year = Inr (Some (x, format_date (time_start x)))"
      using Cons assms by (simp add: get_best_def)
    moreover have "cloud x < 30" using mem by (simp add: acceptable_def)
    ultimately show ?thesis using mem least names by blast
  qed
qed

theorem selectors_least_cloudy_witness:
  "ee_answers catalog_2020 Sentinel2 2020 \<and> acceptable catalog_2020 Sentinel2 2020 \<noteq> {} \<and>
   (\<exists>img. get_best catalog_2020 Sentinel2 2020 = Inr (Some (img, format_date (time_start img)))
      \<and> img \<in> acceptable catalog_2020 Sentinel2 2020 \<and> cloud img < 30
      \<and> (\<forall>ob \<in> acceptable catalog_2020 Sentinel2 2020. cloud img \<le> cloud ob)) \<and>
   ee_answers catalog_2020 Landsat8 2020 \<and> acceptable catalog_2020 Landsat8 2020 = {} \<and>
   get_best catalog_2020 Landsat8 2020 = Inr None"
proof -
  have a1: "ee_answers catalog_2020 Sentinel2 2020" and a2: "ee_answers catalog_2020 Landsat8 2020"
    by (simp_all add: catalog_2020_def)
  have ne: "acceptable catalog_2020 Sentinel2 2020 \<noteq> {}"
    using set_year_collection [of catalog_2020 Sentinel2 2020] year_collection_2020 by auto
  have em: "acceptable catalog_2020 Landsat8 2020 = {}"
    using set_year_collection [of catalog_2020 Landsat8 2020] year_collection_2020_landsat
    by auto
  from selectors_least_cloudy [OF a1] selectors_least_cloudy [OF a2] a1 a2 ne em
  show ?thesis by simp
qed

text \<open>
  The window of the selectors ends at midnight of 31 December and \<open>filterDate\<close>
  excludes its end, so that no image taken on 31 December is a candidate of any year.
\<close>

lemma december_31_never_acceptable:
  assumes "month_of (time_start ob) = 12" and "day_of (time_start ob) = 31"
  shows "ob \<notin> acceptable cat src year"
  using assms by (cases "time_start ob") (auto simp: acceptable_def utc_le_def)

text \<open>
  C8. The claim is that the candidates of a year are the images taken from 1 January
  to 31 December inclusive. On the collection holding one clear image of
  31 December 2020 over the region, both selectors return \<open>(None, None)\<close> for 2020.
\<close>

theorem december_31_image_not_selected:
  "year_of (time_start obs_dec31) = 2020 \<and> month_of (time_start obs_dec31) = 12 \<and>
   day_of (time_start obs_dec31) = 31 \<and> intersects_roi obs_dec31 \<and> cloud obs_dec31 < 30 \<and>
   collection catalog_dec31 Sentinel2 = [obs_dec31] \<and>
   collection catalog_dec31 Landsat8 = [obs_dec31] \<and>
   get_best_sentinel2 catalog_dec31 2020 = Inr None \<and>
   get_best_landsat8 catalog_dec31 2020 = Inr None"
  by (simp add: obs_dec31_def catalog_dec31_def get_best_sentinel2_def get_best_landsat8_def
      get_best_def year_collection_def filterBounds_def filterDate_def filter_lt_cloud_def
      utc_le_def)

lemma get_best_2020:
  "get_best catalog_2020 Sentinel2 2020 = Inr (Some (obs_july, ''2020-07-01''))"
  by code_simp

lemma get_best_2013:
  "get_best catalog_2013 Landsat8 2013 = Inr (Some (obs_2013, ''2013-07-10''))"
  by code_simp

lemma str_int_2020: "str_int 2020 = ''2020''"
  by code_simp

lemma str_int_2013: "str_int 2013 = ''2013''"
  by code_simp

lemma get_best_none_iff:
  assumes "ee_answers cat src year"
  shows "get_best cat src year = Inr None \<longleftrightarrow> acceptable cat src year = {}"
proof -
  have "year_collection cat src year = [] \<longleftrightarrow> acceptable cat src year = {}"
    using set_year_collection [of cat src year] by auto
  with assms show ?thesis by (simp add: get_best_def Let_def)
qed

section \<open>Properties of the download\<close>

text \<open>
  C3 (amended). \<open>download_image\<close> of the downloader saves a file exactly when the
  thumbnail URL is obtained, the request is answered, the status is 200, the content
  type contains \<open>image\<close>, \<open>Image.open\<close> and \<open>verify()\<close> of Pillow accept the bytes, and
  the name is the name of a file. The checks come in this order: a request that raises
  is reported as a failed download; a status other than 200 is reported as a bad
  response whatever the body is; status 200 with \<open>text/html\<close> is a bad response; bytes
  that \<open>verify()\<close> refuses, under status 200 and an image content type, are reported by
  the exception handler. The image is never loaded: whether its pixels can be decoded
  plays no part, and bytes that \<open>verify()\<close> accepts are saved. The analysis script
  records the image of \<open>download_sentinel2_images\<close> exactly when the request is answered
  with status 200.
\<close>

theorem download_image_validates:
  "(fst (download_image w dir img vis fname) = Saved \<longleftrightarrow>
      (\<exists>url resp ctype. thumb_url w img vis = Some url \<and> http_get w url = Some resp \<and>
         status_code resp = 200 \<and> content_type resp = Some ctype \<and> contains ''image'' ctype \<and>
         pil_verify w (content resp)) \<and> \<not> names_directory fname) \<and>
   (\<forall>url. thumb_url w img vis = Some url \<and> http_get w url = None \<longrightarrow>
      download_image w dir img vis fname = (DownloadFailed Transport, dir)) \<and>
   (\<forall>url resp. thumb_url w img vis = Some url \<and> http_get w url = Some resp \<and>
      status_code resp \<noteq> 200 \<longrightarrow>
      download_image w dir img vis fname =
        (BadResponse (status_code resp) (case content_type resp of None \<Rightarrow> [] | Some c \<Rightarrow> c),
         dir)) \<and>
   (\<forall>url resp. thumb_url w img vis = Some url \<and> http_get w url = Some resp \<and>
      status_code resp = 200 \<and> content_type resp = Some ''text/html'' \<longrightarrow>
      download_image w dir img vis fname = (BadResponse 200 ''text/html'', dir)) \<and>
   (\<forall>url resp ctype. thumb_url w img vis = Some url \<and> http_get w url = Some resp \<and>
      status_code resp = 200 \<and> content_type resp = Some ctype \<and> contains ''image'' ctype \<and>
      \<not> pil_verify w (content resp) \<longrightarrow>
      download_image w dir img vis fname = (DownloadFailed Decode, dir)) \<and>
   (\<forall>loader. download_image (w\<lparr>pil_load := loader\<rparr>) dir img vis fname =
      download_image w dir img vis fname) \<and>
   (fst (download_sentinel2_step w dir img date_str date_ms) \<noteq> None \<longleftrightarrow>
      (\<exists>url resp. thumb_url w img legacy_vis = Some url \<and> http_get w url = Some resp \<and>
         status_code resp = 200))"
proof (intro conjI)
  show "fst (download_image w dir img vis fname) = Saved \<longleftrightarrow>
      (\<exists>url resp ctype. thumb_url w img vis = Some url \<and> http_get w url = Some resp \<and>
         status_code resp = 200 \<and> content_type resp = Some ctype \<and> contains ''image'' ctype \<and>
         pil_verify w (content resp)) \<and> \<not> names_directory fname"
    by (auto simp: download_image_def Let_def split: option.splits)
  show "\<forall>loader. download_image (w\<lparr>pil_load := loader\<rparr>) dir img vis fname =
      download_image w dir img vis fname"
    by (simp add: download_image_def split: option.splits)
qed (auto simp: download_image_def download_sentinel2_step_def Let_def split: option.splits)

theorem download_image_validates_witness:
  "fst (download_image world_png Map.empty obs_july S2_VIS ''sentinel2_2020.png'') = Saved \<and>
   thumb_url world_html obs_july S2_VIS = Some ''https://earthengine.example/thumb/20200701T000000'' \<and>
   http_get world_html ''https://earthengine.example/thumb/20200701T000000'' = Some html_response \<and>
   status_code html_response = 200 \<and> content_type html_response = Some ''text/html'' \<and>
   download_image world_html Map.empty obs_july S2_VIS ''sentinel2_2020.png'' =
     (BadResponse 200 ''text/html'', Map.empty) \<and>
   http_get world_truncated ''https://earthengine.example/thumb/20200701T000000'' =
     Some truncated_response \<and>
   status_code truncated_response = 200 \<and> content_type truncated_response = Some ''image/png'' \<and>
   contains ''image'' ''image/png'' \<and> \<not> pil_verify world_truncated (content truncated_response) \<and>
   download_image world_truncated Map.empty obs_july S2_VIS ''sentinel2_2020.png'' =
     (DownloadFailed Decode, Map.empty) \<and>
   status_code cut_jpeg_response = 200 \<and> content_type cut_jpeg_response = Some ''image/jpeg'' \<and>
   pil_verify world_cut_jpeg (content cut_jpeg_response) \<and>
   pil_load world_cut_jpeg (content cut_jpeg_response) = None \<and>
   download_image world_cut_jpeg Map.empty obs_july S2_VIS ''sentinel2_2020.png'' =
     (Saved, [''sentinel2_2020.png'' \<mapsto> Bytes (content cut_jpeg_response)])"
  using
    download_image_validates [where w = world_png and dir = Map.empty and img = obs_july
      and vis = S2_VIS and fname = "''sentinel2_2020.png''"]
    download_image_validates [where w = world_html and dir = Map.empty and img = obs_july
      and vis = S2_VIS and fname = "''sentinel2_2020.png''"]
    download_image_validates [where w = world_truncated and dir = Map.empty and img = obs_july
      and vis = S2_VIS and fname = "''sentinel2_2020.png''"]
    download_image_validates [where w = world_cut_jpeg and dir = Map.empty and img = obs_july
      and vis = S2_VIS and fname = "''sentinel2_2020.png''"]
  by (simp add: world_png_def world_html_def world_truncated_def world_cut_jpeg_def
      png_response_def html_response_def truncated_response_def cut_jpeg_response_def
      obs_july_def names_directory_def download_image_def)

text \<open>
  C3 as stated fails on the analysis script: the loop of \<open>download_sentinel2_images\<close>
  tests the status only, so a response with status 200 and the content type
  \<open>text/html\<close> is written to \<open>sentinel2_20200701.png\<close> and recorded.
\<close>

theorem legacy_download_accepts_html:
  "http_get world_html ''https://earthengine.example/thumb/20200701T000000'' = Some html_response \<and>
   status_code html_response = 200 \<and> content_type html_response = Some ''text/html'' \<and>
   download_sentinel2_step world_html Map.empty obs_july ''2020-07-01'' 1593561600000 =
     (Some [''date'' \<mapsto> JStr ''2020-07-01'', ''timestamp'' \<mapsto> JInt 1593561600000,
            ''filename'' \<mapsto> JStr ''sentinel2_20200701.png'', ''source'' \<mapsto> JStr ''Sentinel-2''],
      [''sentinel2_20200701.png'' \<mapsto> Bytes ''<html>quota exceeded</html>''])"
  by (simp add: download_sentinel2_step_def world_html_def world_png_def html_response_def
      obs_july_def Let_def)

section \<open>Properties of the loop\<close>

lemma select_year_total:
  assumes "ee_answers cat Sentinel2 year" and "ee_answers cat Landsat8 year"
  shows "\<exists>s qs. select_year cat year = Inr (s, qs)"
  using assms
  by (auto simp: select_year_def get_best_sentinel2_def get_best_landsat8_def get_best_def Let_def)

lemma select_year_queries:
  assumes "select_year cat year = Inr (s, qs)"
  shows "set qs \<subseteq> {(Sentinel2, year), (Landsat8, year)}"
  using assms
  by (auto simp: select_year_def split: if_splits sum.splits option.splits prod.splits)

lemma main_year_queries:
  assumes "main_year cat w year st = Inr st'"
  shows "\<exists>s qs. select_year cat year = Inr (s, qs) \<and> queries st' = queries st @ qs"
  using assms
  by (auto simp: main_year_def split: sum.splits option.splits prod.splits if_splits)

lemma main_loop_queries:
  assumes "main_loop cat w years st = Inr st'"
  shows "set (queries st') \<subseteq>
           set (queries st) \<union>
           (\<Union>y \<in> set years. {q. \<exists>s qs. select_year cat y = Inr (s, qs) \<and> q \<in> set qs})"
  using assms
proof (induction years arbitrary: st)
  case Nil
  then show ?case by simp
next
  case (Cons y ys)
  from Cons.prems obtain st1 where s1: "main_year cat w y st = Inr st1"
    and rest: "main_loop cat w ys st1 = Inr st'"
    by (auto split: sum.splits)
  from main_year_queries [OF s1] obtain s qs where
    sel: "select_year cat y = Inr (s, qs)" and q1: "queries st1 = queries st @ qs"
    by blast
  from Cons.IH [OF rest] q1 sel show ?case by auto
qed

lemma main_queries:
  assumes "main cat w now dir = Inr r" and "(src, y) \<in> set (queries (snd r))"
  shows "\<exists>s qs. select_year cat y = Inr (s, qs) \<and> (src, y) \<in> set qs"
proof -
  from assms(1) obtain st where
    loop: "main_loop cat w [START_YEAR..END_YEAR] (initial_run dir) = Inr st"
    and q: "queries (snd r) = queries st"
    by (auto simp: main_def split: sum.splits if_splits prod.splits)
  from main_loop_queries [OF loop] assms(2) q
  obtain y' s qs where sel: "select_year cat y' = Inr (s, qs)" and mem: "(src, y) \<in> set qs"
    by (auto simp: initial_run_def)
  from select_year_queries [OF sel] mem have "y' = y" by auto
  with sel mem show ?thesis by blast
qed

lemma download_outcome_any_dir:
  "fst (download_image w dir img vis fname) = fst (download_image w dir' img vis fname)"
  by (simp add: download_image_def Let_def split: option.splits)

lemma main_year_result:
  assumes "select_year cat year = Inr (s, qs)"
  shows "\<exists>st'. main_year cat w year st = Inr st' \<and>
           images_info st' =
             images_info st @ (case year_result cat w year of None \<Rightarrow> [] | Some e \<Rightarrow> [e]) \<and>
           failed_years st' =
             failed_years st @ (if year_result cat w year = None then [year] else [])"
proof (cases s)
  case None
  with assms show ?thesis by (simp add: main_year_def year_result_def)
next
  case (Some x)
  have eq: "fst (download_image w (files st) (sel_image x) (sel_vis x) (sel_filename x)) =
        fst (download_image w Map.empty (sel_image x) (sel_vis x) (sel_filename x))"
    by (rule download_outcome_any_dir)
  show ?thesis
  proof (cases "download_image w (files st) (sel_image x) (sel_vis x) (sel_filename x)")
    case (Pair outcome dir')
    with eq have
      "fst (download_image w Map.empty (sel_image x) (sel_vis x) (sel_filename x)) = outcome"
      by simp
    with Pair Some assms show ?thesis
      by (simp add: main_year_def year_result_def)
  qed
qed

lemma main_loop_results:
  assumes "\<forall>y \<in> set years. ee_answers cat Sentinel2 y \<and> ee_answers cat Landsat8 y"
  shows "\<exists>st'. main_loop cat w years st = Inr st' \<and>
           failed_years st' = failed_years st @ filter (\<lambda>y. year_result cat w y = None) years \<and>
           images_info st' = images_info st @ List.map_filter (year_result cat w) years"
  using assms
proof (induction years arbitrary: st)
  case Nil
  then show ?case by (simp add: List.map_filter_simps)
next
  case (Cons y ys)
  then obtain s qs where sel: "select_year cat y = Inr (s, qs)"
    using select_year_total [of cat y] by auto
  from main_year_result [OF sel, of w st] obtain st1 where
    s1: "main_year cat w y st = Inr st1" and
    i1: "images_info st1 =
           images_info st @ (case year_result cat w y of None \<Rightarrow> [] | Some e \<Rightarrow> [e])" and
    f1: "failed_years st1 = failed_years st @ (if year_result cat w y = None then [y] else [])"
    by blast
  from Cons.prems have "\<forall>y \<in> set ys. ee_answers cat Sentinel2 y \<and> ee_answers cat Landsat8 y"
    by simp
  from Cons.IH [OF this, of st1] obtain st' where
    l: "main_loop cat w ys st1 = Inr st'" and
    f: "failed_years st' = failed_years st1 @ filter (\<lambda>y. year_result cat w y = None) ys" and
    i: "images_info st' = images_info st1 @ List.map_filter (year_result cat w) ys"
    by blast
  from s1 l have "main_loop cat w (y # ys) st = Inr st'" by simp
  moreover from f f1 have
    "failed_years st' = failed_years st @ filter (\<lambda>y. year_result cat w y = None) (y # ys)"
    by simp
  moreover from i i1 have
    "images_info st' = images_info st @ List.map_filter (year_result cat w) (y # ys)"
    by (cases "year_result cat w y") (simp_all add: List.map_filter_simps)
  ultimately show ?case by blast
qed

lemma main_returns:
  assumes "\<forall>y \<in> set [START_YEAR..END_YEAR]. ee_answers cat Sentinel2 y \<and> ee_answers cat Landsat8 y"
  shows "\<exists>cfg st. main cat w now dir = Inr (cfg, st) \<and>
           failed_years st = filter (\<lambda>y. year_result cat w y = None) [START_YEAR..END_YEAR] \<and>
           images_info st = List.map_filter (year_result cat w) [START_YEAR..END_YEAR]"
proof -
  from main_loop_results [OF assms, of w "initial_run dir"] obtain st where
    l: "main_loop cat w [START_YEAR..END_YEAR] (initial_run dir) = Inr st" and
    f: "failed_years st = filter (\<lambda>y. year_result cat w y = None) [START_YEAR..END_YEAR]" and
    i: "images_info st = List.map_filter (year_result cat w) [START_YEAR..END_YEAR]"
    by (auto simp: initial_run_def)
  show ?thesis
  proof (cases "images_info st = []")
    case True
    with l f i show ?thesis by (simp add: main_def)
  next
    case False
    obtain config dir' where "write_viewer_config now (images_info st) (files st) = (config, dir')"
      by (cases "write_viewer_config now (images_info st) (files st)")
    with False l f i show ?thesis by (simp add: main_def)
  qed
qed

text \<open>
  C2. In a year from 2015 on, Sentinel-2 is asked first: when it has an image, the
  selection is that image with the label \<open>Sentinel-2\<close>, the only query of the year is
  the one to Sentinel-2, and no run of \<open>main\<close> queries Landsat 8 for that year. Before
  2015 Landsat 8 is the only source asked: its image is selected with the label
  \<open>Landsat 8\<close> and Sentinel-2 is not queried.
\<close>

theorem short_circuit:
  "(2015 \<le> year \<and> get_best_sentinel2 cat year = Inr (Some (img, d)) \<longrightarrow>
      select_year cat year =
        Inr (Some \<lparr>sel_image = img, sel_date = d, sel_label = ''Sentinel-2'', sel_vis = S2_VIS,
                   sel_filename = ''sentinel2_'' @ str_int year @ ''.png''\<rparr>,
             [(Sentinel2, year)]) \<and>
      (\<forall>w now dir r. main cat w now dir = Inr r \<longrightarrow>
         (Landsat8, year) \<notin> set (queries (snd r)))) \<and>
   (year < 2015 \<and> get_best_landsat8 cat year = Inr (Some (img, d)) \<longrightarrow>
      select_year cat year =
        Inr (Some \<lparr>sel_image = img, sel_date = d, sel_label = ''Landsat 8'', sel_vis = L8_VIS,
                   sel_filename = ''landsat8_'' @ str_int year @ ''.png''\<rparr>,
             [(Landsat8, year)]) \<and>
      (\<forall>w now dir r. main cat w now dir = Inr r \<longrightarrow>
         (Sentinel2, year) \<notin> set (queries (snd r))))"
proof (intro conjI impI allI)
  assume a: "2015 \<le> year \<and> get_best_sentinel2 cat year = Inr (Some (img, d))"
  then show sel: "select_year cat year =
        Inr (Some \<lparr>sel_image = img, sel_date = d, sel_label = ''Sentinel-2'', sel_vis = S2_VIS,
                   sel_filename = ''sentinel2_'' @ str_int year @ ''.png''\<rparr>,
             [(Sentinel2, year)])"
    by (simp add: select_year_def)
  fix w now dir r
  assume "main cat w now dir = Inr r"
  from main_queries [OF this, of Landsat8 year] sel
  show "(Landsat8, year) \<notin> set (queries (snd r))" by auto
next
  assume a: "year < 2015 \<and> get_best_landsat8 cat year = Inr (Some (img, d))"
  then show sel: "select_year cat year =
        Inr (Some \<lparr>sel_image = img, sel_date = d, sel_label = ''Landsat 8'', sel_vis = L8_VIS,
                   sel_filename = ''landsat8_'' @ str_int year @ ''.png''\<rparr>,
             [(Landsat8, year)])"
    by (simp add: select_year_def)
  fix w now dir r
  assume "main cat w now dir = Inr r"
  from main_queries [OF this, of Sentinel2 year] sel
  show "(Sentinel2, year) \<notin> set (queries (snd r))" by auto
qed

theorem short_circuit_witness:
  "(2015::int) \<le> 2020 \<and>
   get_best_sentinel2 catalog_2020 2020 = Inr (Some (obs_july, ''2020-07-01'')) \<and>
   select_year catalog_2020 2020 =
     Inr (Some \<lparr>sel_image = obs_july, sel_date = ''2020-07-01'', sel_label = ''Sentinel-2'',
                sel_vis = S2_VIS, sel_filename = ''sentinel2_2020.png''\<rparr>,
          [(Sentinel2, 2020)]) \<and>
   \<not> isl (main catalog_2020 world_png ''2026-01-01T00:00:00'' Map.empty) \<and>
   (Landsat8, 2020) \<notin>
     set (queries (snd (projr (main catalog_2020 world_png ''2026-01-01T00:00:00'' Map.empty)))) \<and>
   (2013::int) < 2015 \<and>
   get_best_landsat8 catalog_2013 2013 = Inr (Some (obs_2013, ''2013-07-10'')) \<and>
   select_year catalog_2013 2013 =
     Inr (Some \<lparr>sel_image = obs_2013, sel_date = ''2013-07-10'', sel_label = ''Landsat 8'',
                sel_vis = L8_VIS, sel_filename = ''landsat8_2013.png''\<rparr>,
          [(Landsat8, 2013)]) \<and>
   \<not> isl (main catalog_2013 world_png ''2026-01-01T00:00:00'' Map.empty) \<and>
   (Sentinel2, 2013) \<notin>
     set (queries (snd (projr (main catalog_2013 world_png ''2026-01-01T00:00:00'' Map.empty))))"
proof -
  have g1: "get_best_sentinel2 catalog_2020 2020 = Inr (Some (obs_july, ''2020-07-01''))"
    by (simp add: get_best_sentinel2_def get_best_2020)
  have g2: "get_best_landsat8 catalog_2013 2013 = Inr (Some (obs_2013, ''2013-07-10''))"
    by (simp add: get_best_landsat8_def get_best_2013)
  obtain r1 where r1: "main catalog_2020 world_png ''2026-01-01T00:00:00'' Map.empty = Inr r1"
    using main_returns [of catalog_2020 world_png "''2026-01-01T00:00:00''" Map.empty]
    by (auto simp: catalog_2020_def)
  obtain r2 where r2: "main catalog_2013 world_png ''2026-01-01T00:00:00'' Map.empty = Inr r2"
    using main_returns [of catalog_2013 world_png "''2026-01-01T00:00:00''" Map.empty]
    by (auto simp: catalog_2013_def)
  from short_circuit [of 2020 catalog_2020 obs_july "''2020-07-01''"] g1
  have s1: "select_year catalog_2020 2020 =
     Inr (Some \<lparr>sel_image = obs_july, sel_date = ''2020-07-01'', sel_label = ''Sentinel-2'',
                sel_vis = S2_VIS, sel_filename = ''sentinel2_2020.png''\<rparr>,
          [(Sentinel2, 2020)])"
    and q1: "\<forall>w now dir r. main catalog_2020 w now dir = Inr r \<longrightarrow>
               (Landsat8, 2020) \<notin> set (queries (snd r))"
    by (simp_all add: str_int_2020)
  from short_circuit [of 2013 catalog_2013 obs_2013 "''2013-07-10''"] g2
  have s2: "select_year catalog_2013 2013 =
     Inr (Some \<lparr>sel_image = obs_2013, sel_date = ''2013-07-10'', sel_label = ''Landsat 8'',
                sel_vis = L8_VIS, sel_filename = ''landsat8_2013.png''\<rparr>,
          [(Landsat8, 2013)])"
    and q2: "\<forall>w now dir r. main catalog_2013 w now dir = Inr r \<longrightarrow>
               (Sentinel2, 2013) \<notin> set (queries (snd r))"
    by (simp_all add: str_int_2013)
  from q1 r1 have n1: "(Landsat8, 2020) \<notin> set (queries (snd r1))" by blast
  from q2 r2 have n2: "(Sentinel2, 2013) \<notin> set (queries (snd r2))" by blast
  from g1 g2 s1 s2 n1 n2 r1 r2 show ?thesis by simp
qed

lemma select_year_none_iff:
  assumes "ee_answers cat Sentinel2 year" and "ee_answers cat Landsat8 year"
  shows "(\<exists>qs. select_year cat year = Inr (None, qs)) \<longleftrightarrow>
         acceptable cat Landsat8 year = {} \<and> (2015 \<le> year \<longrightarrow> acceptable cat Sentinel2 year = {})"
proof -
  from assms have ex: "\<exists>r. get_best cat src year = Inr r" for src
    by (cases src) (auto simp: get_best_def Let_def)
  obtain r1 where r1: "get_best cat Sentinel2 year = Inr r1" using ex by blast
  obtain r2 where r2: "get_best cat Landsat8 year = Inr r2" using ex by blast
  have n1: "r1 = None \<longleftrightarrow> acceptable cat Sentinel2 year = {}"
    using get_best_none_iff [OF assms(1)] r1 by simp
  have n2: "r2 = None \<longleftrightarrow> acceptable cat Landsat8 year = {}"
    using get_best_none_iff [OF assms(2)] r2 by simp
  show ?thesis
    using r1 r2 n1 n2
    by (cases r1; cases r2)
      (auto simp: select_year_def get_best_sentinel2_def get_best_landsat8_def)
qed

lemma select_year_filename:
  assumes "select_year cat year = Inr (Some s, qs)"
  shows "(sel_label s = ''Sentinel-2'' \<and> sel_filename s = ''sentinel2_'' @ str_int year @ ''.png'') \<or>
         (sel_label s = ''Landsat 8'' \<and> sel_filename s = ''landsat8_'' @ str_int year @ ''.png'')"
  using assms
  by (auto simp: select_year_def split: if_splits sum.splits option.splits prod.splits)

lemma download_image_dir:
  "\<exists>m. (\<forall>d. snd (download_image w d img vis fname) = d ++ m) \<and> dom m \<subseteq> {fname}"
proof (cases "fst (download_image w Map.empty img vis fname) = Saved")
  case True
  then obtain url resp where u: "thumb_url w img vis = Some url" and r: "http_get w url = Some resp"
    by (auto simp: download_image_def Let_def split: option.splits if_splits)
  with True have "\<forall>d. snd (download_image w d img vis fname) = d ++ [fname \<mapsto> Bytes (content resp)]"
    by (auto simp: download_image_def Let_def split: option.splits if_splits)
  then show ?thesis by (intro exI [of _ "[fname \<mapsto> Bytes (content resp)]"]) simp
next
  case False
  then have "\<forall>d. snd (download_image w d img vis fname) = d ++ Map.empty"
    by (auto simp: download_image_def Let_def split: option.splits if_splits)
  then show ?thesis by (intro exI [of _ Map.empty]) simp
qed

lemma main_year_frame:
  assumes "main_year cat w y st = Inr st'"
  shows "\<exists>m. (\<forall>d. main_year cat w y (st\<lparr>files := d\<rparr>) = Inr (st'\<lparr>files := d ++ m\<rparr>)) \<and>
             (\<forall>f \<in> dom m. prefix ''sentinel2_'' f \<or> prefix ''landsat8_'' f)"
proof -
  from assms obtain sel qs where sy: "select_year cat y = Inr (sel, qs)"
    by (auto simp: main_year_def split: sum.splits)
  show ?thesis
  proof (cases sel)
    case None
    with sy assms have "\<forall>d. main_year cat w y (st\<lparr>files := d\<rparr>) = Inr (st'\<lparr>files := d ++ Map.empty\<rparr>)"
      by (auto simp: main_year_def)
    then show ?thesis by (intro exI [of _ Map.empty]) simp
  next
    case (Some s)
    from download_image_dir [of w "sel_image s" "sel_vis s" "sel_filename s"] obtain m where
      m: "\<forall>d. snd (download_image w d (sel_image s) (sel_vis s) (sel_filename s)) = d ++ m"
      and dm: "dom m \<subseteq> {sel_filename s}" by blast
    have o: "fst (download_image w d (sel_image s) (sel_vis s) (sel_filename s)) =
             fst (download_image w (files st) (sel_image s) (sel_vis s) (sel_filename s))" for d
      by (simp add: download_image_def Let_def split: option.splits)
    have "main_year cat w y (st\<lparr>files := d\<rparr>) = Inr (st'\<lparr>files := d ++ m\<rparr>)" for d
      using assms sy Some m [rule_format, of d] m [rule_format, of "files st"] o [of d]
      by (cases "download_image w d (sel_image s) (sel_vis s) (sel_filename s)";
          cases "download_image w (files st) (sel_image s) (sel_vis s) (sel_filename s)")
        (auto simp: main_year_def split: if_splits)
    moreover from select_year_filename [of cat y s qs] sy Some dm
    have "\<forall>f \<in> dom m. prefix ''sentinel2_'' f \<or> prefix ''landsat8_'' f"
      by (auto simp: prefix_def)
    ultimately show ?thesis by blast
  qed
qed

lemma main_loop_frame:
  assumes "main_loop cat w ys st = Inr st'"
  shows "\<exists>m. (\<forall>d. main_loop cat w ys (st\<lparr>files := d\<rparr>) = Inr (st'\<lparr>files := d ++ m\<rparr>)) \<and>
             (\<forall>f \<in> dom m. prefix ''sentinel2_'' f \<or> prefix ''landsat8_'' f)"
  using assms
proof (induction ys arbitrary: st)
  case Nil
  then have "\<forall>d. main_loop cat w [] (st\<lparr>files := d\<rparr>) = Inr (st'\<lparr>files := d ++ Map.empty\<rparr>)"
    by auto
  then show ?case by (intro exI [of _ Map.empty]) simp
next
  case (Cons y ys)
  from Cons.prems obtain st1 where s1: "main_year cat w y st = Inr st1"
    and rest: "main_loop cat w ys st1 = Inr st'"
    by (auto split: sum.splits)
  from main_year_frame [OF s1] obtain m1 where
    m1: "\<forall>d. main_year cat w y (st\<lparr>files := d\<rparr>) = Inr (st1\<lparr>files := d ++ m1\<rparr>)"
    and p1: "\<forall>f \<in> dom m1. prefix ''sentinel2_'' f \<or> prefix ''landsat8_'' f" by blast
  from Cons.IH [OF rest] obtain m2 where
    m2: "\<forall>d. main_loop cat w ys (st1\<lparr>files := d\<rparr>) = Inr (st'\<lparr>files := d ++ m2\<rparr>)"
    and p2: "\<forall>f \<in> dom m2. prefix ''sentinel2_'' f \<or> prefix ''landsat8_'' f" by blast
  have "main_loop cat w (y # ys) (st\<lparr>files := d\<rparr>) = Inr (st'\<lparr>files := d ++ (m1 ++ m2)\<rparr>)" for d
    using m1 [rule_format, of d] m2 [rule_format, of "d ++ m1"] by simp
  moreover from p1 p2 have "\<forall>f \<in> dom (m1 ++ m2). prefix ''sentinel2_'' f \<or> prefix ''landsat8_'' f"
    by auto
  ultimately show ?case by blast
qed

lemma map_add_twice: "d ++ m ++ m = d ++ m"
  by (rule ext) (simp add: map_add_def split: option.splits)

lemma written_name_not_aligned:
  assumes "prefix ''sentinel2_'' f \<or> prefix ''landsat8_'' f \<or> f = ''viewer_config.json''"
  shows "\<not> prefix ''aligned_'' f"
  using assms by (cases f) auto

lemma main_files:
  assumes "main cat w now dir = Inr (cfg, st)"
  shows "\<exists>m stL. (\<forall>d. main_loop cat w [START_YEAR..END_YEAR] (initial_run d) = Inr (stL\<lparr>files := d ++ m\<rparr>)) \<and>
           (\<forall>f \<in> dom m. prefix ''sentinel2_'' f \<or> prefix ''landsat8_'' f) \<and>
           images_info st = images_info stL \<and>
           (images_info stL = [] \<longrightarrow> cfg = None \<and> files st = dir ++ m) \<and>
           (images_info stL \<noteq> [] \<longrightarrow>
              cfg = Some (fst (write_viewer_config now (images_info stL) Map.empty)) \<and>
              files st = (dir ++ m)(''viewer_config.json'' \<mapsto>
                 Config (fst (write_viewer_config now (images_info stL) Map.empty))))"
proof -
  from assms obtain stL where l: "main_loop cat w [START_YEAR..END_YEAR] (initial_run dir) = Inr stL"
    by (auto simp: main_def split: sum.splits)
  from main_loop_frame [OF l] obtain m where
    m: "\<forall>d. main_loop cat w [START_YEAR..END_YEAR] ((initial_run dir)\<lparr>files := d\<rparr>) = Inr (stL\<lparr>files := d ++ m\<rparr>)"
    and p: "\<forall>f \<in> dom m. prefix ''sentinel2_'' f \<or> prefix ''landsat8_'' f" by blast
  have ir: "(initial_run dir)\<lparr>files := d\<rparr> = initial_run d" for d
    by (simp add: initial_run_def)
  from m ir have m': "\<forall>d. main_loop cat w [START_YEAR..END_YEAR] (initial_run d) = Inr (stL\<lparr>files := d ++ m\<rparr>)"
    by simp
  from m' [rule_format, of dir] l have "stL = stL\<lparr>files := dir ++ m\<rparr>" by simp
  then have "files stL = files (stL\<lparr>files := dir ++ m\<rparr>)" by (rule arg_cong)
  then have fl: "files stL = dir ++ m" by simp
  have wv: "write_viewer_config now infos d = (fst (write_viewer_config now infos Map.empty), d(''viewer_config.json'' \<mapsto> Config (fst (write_viewer_config now infos Map.empty))))" for infos d
    by (simp add: write_viewer_config_def Let_def)
  show ?thesis
  proof (cases "images_info stL = []")
    case True
    with assms l fl have "cfg = None \<and> st = stL" by (simp add: main_def)
    with True m' p fl show ?thesis by blast
  next
    case False
    with assms l have "cfg = Some (fst (write_viewer_config now (images_info stL) Map.empty)) \<and>
       st = stL\<lparr>files := (files stL)(''viewer_config.json'' \<mapsto> Config (fst (write_viewer_config now (images_info stL) Map.empty)))\<rparr>"
      using wv [of "images_info stL" "files stL"] by (auto simp: main_def)
    with False m' p fl show ?thesis by (intro exI [of _ m] exI [of _ stL]) simp
  qed
qed

text \<open>
  C9. Downloading the same image twice to the same name leaves the directory as the
  first download left it, and a download adds no name but the one it is given. The name
  chosen by the selection is made of the source label and the year. A second run of
  \<open>main\<close> on the directory left by a first run, with the same catalog and the same
  answers, returns, accepts the same images, and leaves the same set of file names and
  the same content in every file but \<open>viewer_config.json\<close>, which differs only by the
  time of generation.
\<close>

theorem rerun_converges:
  "(snd (download_image w (snd (download_image w dir img vis fname)) img vis fname) =
      snd (download_image w dir img vis fname) \<and>
    dom (snd (download_image w dir img vis fname)) \<subseteq> insert fname (dom dir)) \<and>
   (\<forall>cat year s qs. select_year cat year = Inr (Some s, qs) \<longrightarrow>
      sel_filename s =
        (if sel_label s = ''Sentinel-2'' then ''sentinel2_'' else ''landsat8_'') @ str_int year @ ''.png'') \<and>
   (\<forall>cat now later cfg st. main cat w now dir = Inr (cfg, st) \<longrightarrow>
      (\<exists>cfg2 st2. main cat w later (files st) = Inr (cfg2, st2) \<and>
         dom (files st2) = dom (files st) \<and>
         images_info st2 = images_info st \<and>
         (\<forall>f. f \<noteq> ''viewer_config.json'' \<longrightarrow> files st2 f = files st f) \<and>
         (later = now \<longrightarrow> cfg2 = cfg \<and> files st2 = files st)))"
proof (intro conjI allI impI)
  from download_image_dir [of w img vis fname] obtain m where
    m: "\<forall>d. snd (download_image w d img vis fname) = d ++ m" and dm: "dom m \<subseteq> {fname}" by blast
  show "snd (download_image w (snd (download_image w dir img vis fname)) img vis fname) =
      snd (download_image w dir img vis fname)"
    using m by (simp add: map_add_twice)
  show "dom (snd (download_image w dir img vis fname)) \<subseteq> insert fname (dom dir)"
    using m dm by auto
next
  fix cat year s qs
  assume "select_year cat year = Inr (Some s, qs)"
  from select_year_filename [OF this]
  show "sel_filename s =
        (if sel_label s = ''Sentinel-2'' then ''sentinel2_'' else ''landsat8_'') @ str_int year @ ''.png''"
    by auto
next
  fix cat now later cfg st
  assume a: "main cat w now dir = Inr (cfg, st)"
  from main_files [OF a] obtain m stL where
    m: "\<forall>d. main_loop cat w [START_YEAR..END_YEAR] (initial_run d) = Inr (stL\<lparr>files := d ++ m\<rparr>)"
    and i: "images_info st = images_info stL"
    and e: "images_info stL = [] \<longrightarrow> cfg = None \<and> files st = dir ++ m"
    and n: "images_info stL \<noteq> [] \<longrightarrow>
              cfg = Some (fst (write_viewer_config now (images_info stL) Map.empty)) \<and>
              files st = (dir ++ m)(''viewer_config.json'' \<mapsto>
                 Config (fst (write_viewer_config now (images_info stL) Map.empty)))"
    by blast
  have wv: "write_viewer_config t infos d = (fst (write_viewer_config t infos Map.empty), d(''viewer_config.json'' \<mapsto> Config (fst (write_viewer_config t infos Map.empty))))" for infos d t
    by (simp add: write_viewer_config_def Let_def)
  show "\<exists>cfg2 st2. main cat w later (files st) = Inr (cfg2, st2) \<and>
         dom (files st2) = dom (files st) \<and>
         images_info st2 = images_info st \<and>
         (\<forall>f. f \<noteq> ''viewer_config.json'' \<longrightarrow> files st2 f = files st f) \<and>
         (later = now \<longrightarrow> cfg2 = cfg \<and> files st2 = files st)"
  proof (cases "images_info stL = []")
    case True
    with e have c: "cfg = None" and f: "files st = dir ++ m" by simp_all
    have "main cat w later (files st) = Inr (None, stL\<lparr>files := files st ++ m\<rparr>)"
      using m [rule_format, of "files st"] True by (simp add: main_def)
    moreover have "files st ++ m = files st" using f by (simp add: map_add_twice)
    ultimately show ?thesis using c i by simp
  next
    case False
    let ?c = "fst (write_viewer_config now (images_info stL) Map.empty)"
    let ?c2 = "fst (write_viewer_config later (images_info stL) Map.empty)"
    let ?vc = "''viewer_config.json''"
    from False n have c: "cfg = Some ?c" and f: "files st = (dir ++ m)(?vc \<mapsto> Config ?c)"
      by simp_all
    have r: "main cat w later (files st) =
        Inr (Some ?c2, stL\<lparr>files := (files st ++ m)(?vc \<mapsto> Config ?c2)\<rparr>)"
      using m [rule_format, of "files st"] False wv [of later "images_info stL" "files st ++ m"]
      by (simp add: main_def)
    have d: "dom ((files st ++ m)(?vc \<mapsto> Config ?c2)) = dom (files st)"
      using f by auto
    have o: "((files st ++ m)(?vc \<mapsto> Config ?c2)) g = files st g" if "g \<noteq> ?vc" for g
      using that f by (simp add: map_add_def split: option.splits)
    have s: "(files st ++ m)(?vc \<mapsto> Config ?c) = files st"
    proof
      fix g show "((files st ++ m)(?vc \<mapsto> Config ?c)) g = files st g"
        using f by (cases "g = ?vc") (simp_all add: map_add_def split: option.splits)
    qed
    from r d o s c i show ?thesis by auto
  qed
qed

lemma info_of_fields:
  "aligned_filename (info_of s) = filename (info_of s) \<and> width (info_of s) = 1024 \<and> height (info_of s) = 1024"
  by (simp add: info_of_def IMAGE_PX_def)

lemma main_year_infos:
  assumes "main_year cat w y st = Inr st'"
  shows "set (images_info st') \<subseteq> set (images_info st) \<union> range info_of"
  using assms
  by (auto simp: main_year_def split: sum.splits option.splits prod.splits if_splits)

lemma main_loop_infos:
  assumes "main_loop cat w ys st = Inr st'"
  shows "set (images_info st') \<subseteq> set (images_info st) \<union> range info_of"
  using assms
proof (induction ys arbitrary: st)
  case Nil
  then show ?case by auto
next
  case (Cons y ys)
  from Cons.prems obtain st1 where s1: "main_year cat w y st = Inr st1"
    and rest: "main_loop cat w ys st1 = Inr st'"
    by (auto split: sum.splits)
  from main_year_infos [OF s1] Cons.IH [OF rest] show ?case by blast
qed

text \<open>
  C10. After a run of \<open>main\<close>, every entry of \<open>images_info\<close>, and every entry of the
  images of the configuration written, has \<open>aligned_filename\<close> equal to \<open>filename\<close> and
  the width and the height 1024, whatever bytes were downloaded; and no file whose name
  starts with \<open>aligned_\<close> is created or changed.
\<close>

theorem manifest_entries_fixed_size:
  assumes "main cat w now dir = Inr (cfg, st)"
  shows "(\<forall>e \<in> set (images_info st).
            aligned_filename e = filename e \<and> width e = 1024 \<and> height e = 1024) \<and>
         (\<forall>c. cfg = Some c \<longrightarrow>
            (\<forall>e \<in> set (images c).
               aligned_filename e = filename e \<and> width e = 1024 \<and> height e = 1024)) \<and>
         (\<forall>f. files st f \<noteq> dir f \<longrightarrow> \<not> prefix ''aligned_'' f)"
proof -
  from main_files [OF assms] obtain m stL where
    m: "\<forall>d. main_loop cat w [START_YEAR..END_YEAR] (initial_run d) = Inr (stL\<lparr>files := d ++ m\<rparr>)"
    and p: "\<forall>f \<in> dom m. prefix ''sentinel2_'' f \<or> prefix ''landsat8_'' f"
    and i: "images_info st = images_info stL"
    and e: "images_info stL = [] \<longrightarrow> cfg = None \<and> files st = dir ++ m"
    and n: "images_info stL \<noteq> [] \<longrightarrow>
              cfg = Some (fst (write_viewer_config now (images_info stL) Map.empty)) \<and>
              files st = (dir ++ m)(''viewer_config.json'' \<mapsto>
                 Config (fst (write_viewer_config now (images_info stL) Map.empty)))"
    by blast
  from main_loop_infos [OF m [rule_format, of dir]] i
  have "set (images_info st) \<subseteq> range info_of" by (simp add: initial_run_def)
  then have a: "\<forall>e \<in> set (images_info st).
            aligned_filename e = filename e \<and> width e = 1024 \<and> height e = 1024"
    using info_of_fields by auto
  have b: "\<forall>e \<in> set (images c).
               aligned_filename e = filename e \<and> width e = 1024 \<and> height e = 1024"
    if "cfg = Some c" for c
  proof -
    from that e n i have "c = fst (write_viewer_config now (images_info st) Map.empty)"
      by (cases "images_info stL = []") auto
    then have "set (images c) = set (images_info st)"
      by (simp add: write_viewer_config_def Let_def)
    with a show ?thesis by simp
  qed
  have c: "\<not> prefix ''aligned_'' f" if "files st f \<noteq> dir f" for f
  proof -
    from that e n have "f \<in> dom m \<or> f = ''viewer_config.json''"
      by (cases "images_info stL = []") (auto simp: map_add_def split: option.splits if_splits)
    with p show ?thesis using written_name_not_aligned [of f] by blast
  qed
  from a b c show ?thesis by blast
qed

text \<open>
  C5. When the catalog answers the queries of every year of the range, \<open>main\<close> returns.
  The skipped years are, in order, the years whose iteration accepts nothing; the
  accepted entries are, in order, those of the other years, each one the entry its
  year yields on its own. A year accepts nothing exactly when no source asked for it
  has an acceptable candidate, or when the download of the selected image is not
  saved.
\<close>

theorem per_year_failures_skipped:
  assumes "\<forall>y \<in> set [START_YEAR..END_YEAR]. ee_answers cat Sentinel2 y \<and> ee_answers cat Landsat8 y"
  shows "\<exists>cfg st. main cat w now dir = Inr (cfg, st) \<and>
           failed_years st = filter (\<lambda>y. year_result cat w y = None) [START_YEAR..END_YEAR] \<and>
           images_info st = List.map_filter (year_result cat w) [START_YEAR..END_YEAR] \<and>
           (\<forall>y \<in> set [START_YEAR..END_YEAR].
              (year_result cat w y = None \<longleftrightarrow>
                 (acceptable cat Landsat8 y = {} \<and> (2015 \<le> y \<longrightarrow> acceptable cat Sentinel2 y = {})) \<or>
                 (\<exists>s qs. select_year cat y = Inr (Some s, qs) \<and>
                    fst (download_image w Map.empty (sel_image s) (sel_vis s) (sel_filename s)) \<noteq> Saved)))"
proof -
  have kinds: "year_result cat w y = None \<longleftrightarrow>
                 (acceptable cat Landsat8 y = {} \<and> (2015 \<le> y \<longrightarrow> acceptable cat Sentinel2 y = {})) \<or>
                 (\<exists>s qs. select_year cat y = Inr (Some s, qs) \<and>
                    fst (download_image w Map.empty (sel_image s) (sel_vis s) (sel_filename s)) \<noteq> Saved)"
    if "y \<in> set [START_YEAR..END_YEAR]" for y
  proof -
    from that assms have a1: "ee_answers cat Sentinel2 y" and a2: "ee_answers cat Landsat8 y"
      by auto
    from select_year_total [OF a1 a2] obtain s qs where sel: "select_year cat y = Inr (s, qs)"
      by blast
    show ?thesis
    proof (cases s)
      case None
      with sel select_year_none_iff [OF a1 a2] show ?thesis
        by (auto simp: year_result_def)
    next
      case (Some x)
      with sel select_year_none_iff [OF a1 a2]
      have "\<not> (acceptable cat Landsat8 y = {} \<and> (2015 \<le> y \<longrightarrow> acceptable cat Sentinel2 y = {}))"
        by auto
      with sel Some show ?thesis by (auto simp: year_result_def ok_of_def)
    qed
  qed
  from main_returns [OF assms, of w now dir] kinds show ?thesis by blast
qed

lemma failed_2020_png:
  "filter (\<lambda>y. year_result catalog_2020 world_png y = None) [START_YEAR..END_YEAR] =
     [2013, 2014, 2015, 2016, 2017, 2018, 2019, 2021, 2022, 2023, 2024]"
  by code_simp

lemma accepted_2020_png:
  "List.map_filter (year_result catalog_2020 world_png) [START_YEAR..END_YEAR] =
     [\<lparr>date = ''2020-07-01'', filename = ''sentinel2_2020.png'',
       aligned_filename = ''sentinel2_2020.png'', source = ''Sentinel-2'',
       width = 1024, height = 1024\<rparr>]"
  by code_simp

lemma failed_2020_truncated:
  "filter (\<lambda>y. year_result catalog_2020 world_truncated y = None) [START_YEAR..END_YEAR] =
     [2013, 2014, 2015, 2016, 2017, 2018, 2019, 2020, 2021, 2022, 2023, 2024]"
  by code_simp

lemma accepted_2020_truncated:
  "List.map_filter (year_result catalog_2020 world_truncated) [START_YEAR..END_YEAR] = []"
  by code_simp

theorem per_year_failures_skipped_witness:
  "\<not> isl (main catalog_2020 world_png ''2026-01-01T00:00:00'' Map.empty) \<and>
   failed_years (snd (projr (main catalog_2020 world_png ''2026-01-01T00:00:00'' Map.empty))) =
     [2013, 2014, 2015, 2016, 2017, 2018, 2019, 2021, 2022, 2023, 2024] \<and>
   images_info (snd (projr (main catalog_2020 world_png ''2026-01-01T00:00:00'' Map.empty))) =
     [\<lparr>date = ''2020-07-01'', filename = ''sentinel2_2020.png'',
       aligned_filename = ''sentinel2_2020.png'', source = ''Sentinel-2'',
       width = 1024, height = 1024\<rparr>] \<and>
   \<not> isl (main catalog_2020 world_truncated ''2026-01-01T00:00:00'' Map.empty) \<and>
   failed_years (snd (projr (main catalog_2020 world_truncated ''2026-01-01T00:00:00'' Map.empty))) =
     [2013, 2014, 2015, 2016, 2017, 2018, 2019, 2020, 2021, 2022, 2023, 2024] \<and>
   images_info (snd (projr (main catalog_2020 world_truncated ''2026-01-01T00:00:00'' Map.empty))) = []"
proof -
  have a: "\<forall>y \<in> set [START_YEAR..END_YEAR].
             ee_answers catalog_2020 Sentinel2 y \<and> ee_answers catalog_2020 Landsat8 y"
    by (simp add: catalog_2020_def)
  from per_year_failures_skipped [OF a, of world_png "''2026-01-01T00:00:00''" Map.empty]
  obtain cfg1 st1 where r1: "main catalog_2020 world_png ''2026-01-01T00:00:00'' Map.empty = Inr (cfg1, st1)"
    and f1: "failed_years st1 = filter (\<lambda>y. year_result catalog_2020 world_png y = None) [START_YEAR..END_YEAR]"
    and i1: "images_info st1 = List.map_filter (year_result catalog_2020 world_png) [START_YEAR..END_YEAR]"
    by blast
  from per_year_failures_skipped [OF a, of world_truncated "''2026-01-01T00:00:00''" Map.empty]
  obtain cfg2 st2 where r2: "main catalog_2020 world_truncated ''2026-01-01T00:00:00'' Map.empty = Inr (cfg2, st2)"
    and f2: "failed_years st2 = filter (\<lambda>y. year_result catalog_2020 world_truncated y = None) [START_YEAR..END_YEAR]"
    and i2: "images_info st2 = List.map_filter (year_result catalog_2020 world_truncated) [START_YEAR..END_YEAR]"
    by blast
  from r1 f1 i1 r2 f2 i2 show ?thesis
    by (simp add: failed_2020_png accepted_2020_png failed_2020_truncated accepted_2020_truncated)
qed

theorem rerun_converges_witness:
  "download_image world_png Map.empty obs_july S2_VIS ''sentinel2_2020.png'' =
     (Saved, [''sentinel2_2020.png'' \<mapsto> Bytes ''PNG-IHDR-IDAT-IEND'']) \<and>
   download_image world_png [''sentinel2_2020.png'' \<mapsto> Bytes ''PNG-IHDR-IDAT-IEND''] obs_july S2_VIS
       ''sentinel2_2020.png'' =
     (Saved, [''sentinel2_2020.png'' \<mapsto> Bytes ''PNG-IHDR-IDAT-IEND'']) \<and>
   select_year catalog_2020 2020 =
     Inr (Some \<lparr>sel_image = obs_july, sel_date = ''2020-07-01'', sel_label = ''Sentinel-2'',
                sel_vis = S2_VIS, sel_filename = ''sentinel2_2020.png''\<rparr>,
          [(Sentinel2, 2020)]) \<and>
   \<not> isl (main catalog_2020 world_png ''2026-01-01T00:00:00'' Map.empty) \<and>
   \<not> isl (main catalog_2020 world_png ''2026-02-01T00:00:00''
            (files (snd (projr (main catalog_2020 world_png ''2026-01-01T00:00:00'' Map.empty))))) \<and>
   dom (files (snd (projr (main catalog_2020 world_png ''2026-02-01T00:00:00''
            (files (snd (projr (main catalog_2020 world_png ''2026-01-01T00:00:00'' Map.empty)))))))) =
     dom (files (snd (projr (main catalog_2020 world_png ''2026-01-01T00:00:00'' Map.empty))))"
proof -
  have d1: "download_image world_png Map.empty obs_july S2_VIS ''sentinel2_2020.png'' =
     (Saved, [''sentinel2_2020.png'' \<mapsto> Bytes ''PNG-IHDR-IDAT-IEND''])"
    by (simp add: download_image_def world_png_def png_response_def obs_july_def
        names_directory_def)
  have d2: "download_image world_png [''sentinel2_2020.png'' \<mapsto> Bytes ''PNG-IHDR-IDAT-IEND''] obs_july S2_VIS
       ''sentinel2_2020.png'' = (Saved, [''sentinel2_2020.png'' \<mapsto> Bytes ''PNG-IHDR-IDAT-IEND''])"
    by (simp add: download_image_def world_png_def png_response_def obs_july_def
        names_directory_def)
  have s: "select_year catalog_2020 2020 =
     Inr (Some \<lparr>sel_image = obs_july, sel_date = ''2020-07-01'', sel_label = ''Sentinel-2'',
                sel_vis = S2_VIS, sel_filename = ''sentinel2_2020.png''\<rparr>,
          [(Sentinel2, 2020)])"
    by (simp add: select_year_def get_best_sentinel2_def get_best_2020 str_int_2020)
  obtain cfg st where r: "main catalog_2020 world_png ''2026-01-01T00:00:00'' Map.empty = Inr (cfg, st)"
    using main_returns [of catalog_2020 world_png "''2026-01-01T00:00:00''" Map.empty]
    by (auto simp: catalog_2020_def)
  note rerun_converges [of world_png Map.empty obs_july S2_VIS "''sentinel2_2020.png''",
      THEN conjunct2, THEN conjunct2, rule_format, OF r, where later = "''2026-02-01T00:00:00''"]
  then obtain cfg2 where "\<exists>st2. main catalog_2020 world_png ''2026-02-01T00:00:00'' (files st) = Inr (cfg2, st2) \<and>
         dom (files st2) = dom (files st) \<and>
         images_info st2 = images_info st \<and>
         (\<forall>f. f \<noteq> ''viewer_config.json'' \<longrightarrow> files st2 f = files st f) \<and>
         (''2026-02-01T00:00:00'' = ''2026-01-01T00:00:00'' \<longrightarrow> cfg2 = cfg \<and> files st2 = files st)" ..
  then obtain st2 where big: "main catalog_2020 world_png ''2026-02-01T00:00:00'' (files st) = Inr (cfg2, st2) \<and>
         dom (files st2) = dom (files st) \<and>
         images_info st2 = images_info st \<and>
         (\<forall>f. f \<noteq> ''viewer_config.json'' \<longrightarrow> files st2 f = files st f) \<and>
         (''2026-02-01T00:00:00'' = ''2026-01-01T00:00:00'' \<longrightarrow> cfg2 = cfg \<and> files st2 = files st)" ..
  then have r2: "main catalog_2020 world_png ''2026-02-01T00:00:00'' (files st) = Inr (cfg2, st2)"
    and dd: "dom (files st2) = dom (files st)"
    by (rule conjunct1, rule conjunct2 [THEN conjunct1])
  from d1 d2 s r r2 dd show ?thesis by simp
qed

theorem manifest_entries_fixed_size_witness:
  "\<not> isl (main catalog_2020 world_png ''2026-01-01T00:00:00'' Map.empty) \<and>
   images_info (snd (projr (main catalog_2020 world_png ''2026-01-01T00:00:00'' Map.empty))) =
     [\<lparr>date = ''2020-07-01'', filename = ''sentinel2_2020.png'',
       aligned_filename = ''sentinel2_2020.png'', source = ''Sentinel-2'',
       width = 1024, height = 1024\<rparr>] \<and>
   list_all (\<lambda>e. aligned_filename e = filename e \<and> width e = 1024 \<and> height e = 1024)
     (images_info (snd (projr (main catalog_2020 world_png ''2026-01-01T00:00:00'' Map.empty))))"
proof -
  have a: "\<forall>y \<in> set [START_YEAR..END_YEAR].
             ee_answers catalog_2020 Sentinel2 y \<and> ee_answers catalog_2020 Landsat8 y"
    by (simp add: catalog_2020_def)
  from main_returns [OF a, of world_png "''2026-01-01T00:00:00''" Map.empty]
  obtain cfg st where r: "main catalog_2020 world_png ''2026-01-01T00:00:00'' Map.empty = Inr (cfg, st)"
    and i: "images_info st = List.map_filter (year_result catalog_2020 world_png) [START_YEAR..END_YEAR]"
    by blast
  from manifest_entries_fixed_size [OF r] have
    "\<forall>e \<in> set (images_info st). aligned_filename e = filename e \<and> width e = 1024 \<and> height e = 1024"
    by blast
  then have "list_all (\<lambda>e. aligned_filename e = filename e \<and> width e = 1024 \<and> height e = 1024)
     (images_info st)"
    by (simp add: list_all_iff)
  with r i show ?thesis by (simp add: accepted_2020_png)
qed

section \<open>Properties of the viewer configuration\<close>

lemma insort_key_cong:
  assumes "f x = g x" and "\<forall>y \<in> set ys. f y = g y"
  shows "insort_key f x ys = insort_key g x ys"
  using assms by (induction ys) auto

lemma sort_key_cong:
  assumes "\<forall>x \<in> set xs. f x = g x"
  shows "sort_key f xs = sort_key g xs"
  using assms
proof (induction xs)
  case Nil
  then show ?case by simp
next
  case (Cons x xs)
  then have "sort_key f xs = sort_key g xs" by simp
  moreover have "insort_key f x (sort_key g xs) = insort_key g x (sort_key g xs)"
    using Cons.prems by (intro insort_key_cong) auto
  ultimately show ?case by simp
qed

lemma frame_key_date:
  assumes "x ''timestamp'' = None" and "\<forall>i. x ''date'' \<noteq> Some (JInt i)"
  shows "frame_key x = JStr (str_of (dict_get x ''date'' (JStr [])))"
proof (cases "x ''date''")
  case None
  with assms show ?thesis by (simp add: frame_key_def dict_get_def py_or_def)
next
  case (Some v)
  with assms obtain s where "v = JStr s" by (cases v) auto
  with Some assms show ?thesis by (simp add: frame_key_def dict_get_def py_or_def)
qed

lemma frame_key_timestamp:
  assumes "x ''timestamp'' = Some (JInt t)" and "t \<noteq> 0"
  shows "frame_key x = JInt (int_of (dict_get x ''timestamp'' (JInt 0)))"
  using assms by (simp add: frame_key_def dict_get_def py_or_def)

lemma sort_frames_strings:
  assumes "\<forall>x \<in> set frames. x ''timestamp'' = None \<and> (\<forall>i. x ''date'' \<noteq> Some (JInt i))"
  shows "sort_frames frames = Inr (sort_key (\<lambda>x. str_of (dict_get x ''date'' (JStr []))) frames)"
proof -
  have k: "\<forall>x \<in> set frames. frame_key x = JStr (str_of (dict_get x ''date'' (JStr [])))"
    using assms frame_key_date by blast
  show ?thesis
  proof (cases "frames = []")
    case True
    then show ?thesis by (simp add: sort_frames_def)
  next
    case False
    then obtain x where "x \<in> set frames" by (cases frames) auto
    with k have "\<not> list_all (\<lambda>x. is_JInt (frame_key x)) frames"
      by (auto simp: list_all_iff)
    moreover from k have "list_all (\<lambda>x. is_JStr (frame_key x)) frames"
      by (simp add: list_all_iff)
    moreover from k have "sort_key (\<lambda>x. str_of (frame_key x)) frames =
        sort_key (\<lambda>x. str_of (dict_get x ''date'' (JStr []))) frames"
      by (intro sort_key_cong) simp
    ultimately show ?thesis by (simp add: sort_frames_def)
  qed
qed

lemma sort_frames_timestamps:
  assumes "\<forall>x \<in> set frames. \<exists>t. x ''timestamp'' = Some (JInt t) \<and> t \<noteq> 0"
  shows "sort_frames frames = Inr (sort_key (\<lambda>x. int_of (dict_get x ''timestamp'' (JInt 0))) frames)"
proof -
  have k: "\<forall>x \<in> set frames. frame_key x = JInt (int_of (dict_get x ''timestamp'' (JInt 0)))"
    using assms frame_key_timestamp by blast
  then have "list_all (\<lambda>x. is_JInt (frame_key x)) frames"
    by (simp add: list_all_iff)
  moreover from k have "sort_key (\<lambda>x. int_of (frame_key x)) frames =
        sort_key (\<lambda>x. int_of (dict_get x ''timestamp'' (JInt 0))) frames"
    by (intro sort_key_cong) simp
  ultimately show ?thesis by (simp add: sort_frames_def)
qed

lemma create_viewer_config_sorted:
  assumes "sort_frames frames = Inr sorted_images" and "frames \<noteq> []"
  shows "\<exists>cfg dir'. create_viewer_config now frames dir = Inr (cfg, dir') \<and>
           legacy_images cfg = sorted_images \<and>
           legacy_total_images cfg = length frames \<and>
           legacy_start cfg = dict_get (hd sorted_images) ''date'' (JStr ''unknown'') \<and>
           legacy_end cfg = dict_get (last sorted_images) ''date'' (JStr ''unknown'')"
proof -
  from assms have "length sorted_images = length frames"
    by (auto simp: sort_frames_def split: if_splits)
  with assms have "sorted_images \<noteq> []" by auto
  with assms \<open>length sorted_images = length frames\<close> show ?thesis
    by (simp add: create_viewer_config_def Let_def)
qed

lemma example_dates_sorted:
  assumes "map date infos = [''2016-03-01'', ''2013-07-10'', ''2020-11-05'']"
  shows "map date (sort_key date infos) = [''2013-07-10'', ''2016-03-01'', ''2020-11-05'']"
proof -
  from assms obtain a b c where i: "infos = [a, b, c]"
    and d: "date a = ''2016-03-01''" "date b = ''2013-07-10''" "date c = ''2020-11-05''"
    by (auto simp: map_eq_Cons_conv)
  show ?thesis by (simp add: i d)
qed

text \<open>
  C4 (amended). \<open>write_viewer_config\<close> of the downloader, whose frames all carry a
  date, puts in the manifest the frames sorted ascending by date with a stable sort
  (frames of equal date keep their input order), and the date range is the date of the
  first and of the last entry after sorting; the dates 2016-03-01, 2013-07-10,
  2020-11-05 come out as 2013-07-10, 2016-03-01, 2020-11-05 with that start and end.
  \<open>create_viewer_config\<close> of the analysis script sorts on the timestamp of a frame when
  it has one: when no frame has a timestamp the frames are sorted stably by date, a
  missing date counting as the empty string; when every frame has a timestamp that is
  not zero they are sorted stably by timestamp. In both cases the date range is the
  date of the first and of the last entry after sorting, \<open>unknown\<close> when it is missing.
\<close>

theorem manifest_sorted_by_date:
  "(case write_viewer_config now infos dir of (config, dir') \<Rightarrow>
      images config = sort_key date infos \<and>
      sorted (map date (images config)) \<and>
      (\<forall>d. filter (\<lambda>x. date x = d) (images config) = filter (\<lambda>x. date x = d) infos) \<and>
      (infos \<noteq> [] \<longrightarrow>
         dr_start (date_range (config_metadata config)) = date (hd (images config)) \<and>
         dr_end (date_range (config_metadata config)) = date (last (images config))) \<and>
      (map date infos = [''2016-03-01'', ''2013-07-10'', ''2020-11-05''] \<longrightarrow>
         map date (images config) = [''2013-07-10'', ''2016-03-01'', ''2020-11-05''] \<and>
         date_range (config_metadata config) =
           \<lparr>dr_start = ''2013-07-10'', dr_end = ''2020-11-05''\<rparr>)) \<and>
   (frames \<noteq> [] \<and>
    (\<forall>x \<in> set frames. x ''timestamp'' = None \<and> (\<forall>i. x ''date'' \<noteq> Some (JInt i))) \<longrightarrow>
      (\<exists>cfg dir'. create_viewer_config now frames dir = Inr (cfg, dir') \<and>
         legacy_images cfg = sort_key (\<lambda>x. str_of (dict_get x ''date'' (JStr []))) frames \<and>
         legacy_start cfg = dict_get (hd (legacy_images cfg)) ''date'' (JStr ''unknown'') \<and>
         legacy_end cfg = dict_get (last (legacy_images cfg)) ''date'' (JStr ''unknown''))) \<and>
   (frames \<noteq> [] \<and>
    (\<forall>x \<in> set frames. \<exists>t. x ''timestamp'' = Some (JInt t) \<and> t \<noteq> 0) \<longrightarrow>
      (\<exists>cfg dir'. create_viewer_config now frames dir = Inr (cfg, dir') \<and>
         legacy_images cfg = sort_key (\<lambda>x. int_of (dict_get x ''timestamp'' (JInt 0))) frames \<and>
         legacy_start cfg = dict_get (hd (legacy_images cfg)) ''date'' (JStr ''unknown'') \<and>
         legacy_end cfg = dict_get (last (legacy_images cfg)) ''date'' (JStr ''unknown'')))"
proof (intro conjI impI)
  show "case write_viewer_config now infos dir of (config, dir') \<Rightarrow>
      images config = sort_key date infos \<and>
      sorted (map date (images config)) \<and>
      (\<forall>d. filter (\<lambda>x. date x = d) (images config) = filter (\<lambda>x. date x = d) infos) \<and>
      (infos \<noteq> [] \<longrightarrow>
         dr_start (date_range (config_metadata config)) = date (hd (images config)) \<and>
         dr_end (date_range (config_metadata config)) = date (last (images config))) \<and>
      (map date infos = [''2016-03-01'', ''2013-07-10'', ''2020-11-05''] \<longrightarrow>
         map date (images config) = [''2013-07-10'', ''2016-03-01'', ''2020-11-05''] \<and>
         date_range (config_metadata config) =
           \<lparr>dr_start = ''2013-07-10'', dr_end = ''2020-11-05''\<rparr>)"
  proof -
    have ne: "sort_key date infos \<noteq> []" if "infos \<noteq> []"
      using that length_sort [of date infos] by (cases "sort_key date infos") auto
    have ex: "map date (sort_key date infos) = [''2013-07-10'', ''2016-03-01'', ''2020-11-05'']"
      if "map date infos = [''2016-03-01'', ''2013-07-10'', ''2020-11-05'']"
      using that by (rule example_dates_sorted)
    have hdl: "date (hd (sort_key date infos)) = ''2013-07-10'' \<and>
               date (last (sort_key date infos)) = ''2020-11-05''"
      if "map date infos = [''2016-03-01'', ''2013-07-10'', ''2020-11-05'']"
    proof -
      from ex [OF that] obtain a b c where s: "sort_key date infos = [a, b, c]"
        and "date a = ''2013-07-10''" "date c = ''2020-11-05''"
        by (auto simp: map_eq_Cons_conv)
      then show ?thesis by simp
    qed
    show ?thesis
      using ne ex hdl
      by (auto simp: write_viewer_config_def Let_def sort_key_stable)
  qed
next
  assume a: "frames \<noteq> [] \<and>
    (\<forall>x \<in> set frames. x ''timestamp'' = None \<and> (\<forall>i. x ''date'' \<noteq> Some (JInt i)))"
  then have "sort_frames frames =
      Inr (sort_key (\<lambda>x. str_of (dict_get x ''date'' (JStr []))) frames)"
    by (intro sort_frames_strings) simp
  from create_viewer_config_sorted [OF this, of now dir] a
  show "\<exists>cfg dir'. create_viewer_config now frames dir = Inr (cfg, dir') \<and>
         legacy_images cfg = sort_key (\<lambda>x. str_of (dict_get x ''date'' (JStr []))) frames \<and>
         legacy_start cfg = dict_get (hd (legacy_images cfg)) ''date'' (JStr ''unknown'') \<and>
         legacy_end cfg = dict_get (last (legacy_images cfg)) ''date'' (JStr ''unknown'')"
    by auto
next
  assume a: "frames \<noteq> [] \<and>
    (\<forall>x \<in> set frames. \<exists>t. x ''timestamp'' = Some (JInt t) \<and> t \<noteq> 0)"
  then have "sort_frames frames =
      Inr (sort_key (\<lambda>x. int_of (dict_get x ''timestamp'' (JInt 0))) frames)"
    by (intro sort_frames_timestamps) simp
  from create_viewer_config_sorted [OF this, of now dir] a
  show "\<exists>cfg dir'. create_viewer_config now frames dir = Inr (cfg, dir') \<and>
         legacy_images cfg = sort_key (\<lambda>x. int_of (dict_get x ''timestamp'' (JInt 0))) frames \<and>
         legacy_start cfg = dict_get (hd (legacy_images cfg)) ''date'' (JStr ''unknown'') \<and>
         legacy_end cfg = dict_get (last (legacy_images cfg)) ''date'' (JStr ''unknown'')"
    by auto
qed

text \<open>
  C4 as stated fails on the analysis script: two frames of the same date, listed noon
  first, come out morning first, since the timestamp is the key.
\<close>

theorem equal_dates_reordered_by_timestamp:
  "frame_noon ''date'' = frame_morning ''date'' \<and>
   map_sum id (\<lambda>r. legacy_images (fst r))
     (create_viewer_config ''2026-01-01T00:00:00'' [frame_noon, frame_morning] Map.empty) =
     Inr [frame_morning, frame_noon]"
  by (simp add: create_viewer_config_def sort_frames_def frame_key_def dict_get_def py_or_def
      frame_noon_def frame_morning_def Let_def)

text \<open>
  C7 (amended). On an empty list \<open>align_images\<close> returns the empty list, and
  \<open>write_viewer_config\<close> of the downloader gives no image, \<open>total_images\<close> 0 and the
  date range \<open>unknown\<close> to \<open>unknown\<close>. \<open>main\<close> of the analysis script creates no
  configuration from an empty list, and \<open>create_viewer_config\<close> itself raises
  \<open>IndexError\<close> on one.
\<close>

theorem empty_input_benign:
  "align_images w dir [] = Inr ([], dir) \<and>
   images (fst (write_viewer_config now [] dir)) = [] \<and>
   total_images (config_metadata (fst (write_viewer_config now [] dir))) = 0 \<and>
   date_range (config_metadata (fst (write_viewer_config now [] dir))) =
     \<lparr>dr_start = ''unknown'', dr_end = ''unknown''\<rparr> \<and>
   analysis_main w now dir [] = Inr (None, dir) \<and>
   create_viewer_config now [] dir = Inl IndexError"
  by (simp add: align_images_def write_viewer_config_def analysis_main_def
      create_viewer_config_def sort_frames_def Let_def)

text \<open>
  C7 as stated fails on the analysis script: \<open>create_viewer_config\<close> reads
  \<open>aligned_images[0]\<close> without a test.
\<close>

theorem create_viewer_config_empty_raises:
  "create_viewer_config ''2026-01-01T00:00:00'' [] Map.empty = Inl IndexError"
  by (simp add: create_viewer_config_def sort_frames_def)

theorem manifest_sorted_by_date_witness:
  "map date (images (fst (write_viewer_config ''2026-01-01T00:00:00''
      [dated_info ''2016-03-01'', dated_info ''2013-07-10'', dated_info ''2020-11-05'']
      Map.empty))) = [''2013-07-10'', ''2016-03-01'', ''2020-11-05''] \<and>
   date_range (config_metadata (fst (write_viewer_config ''2026-01-01T00:00:00''
      [dated_info ''2016-03-01'', dated_info ''2013-07-10'', dated_info ''2020-11-05'']
      Map.empty))) = \<lparr>dr_start = ''2013-07-10'', dr_end = ''2020-11-05''\<rparr> \<and>
   map_sum id (\<lambda>r. (map (\<lambda>x. x ''date'') (legacy_images (fst r)), legacy_start (fst r),
                     legacy_end (fst r)))
     (create_viewer_config ''2026-01-01T00:00:00''
        [tile_frame ''2016-03-01'', tile_frame ''2013-07-10'', tile_frame ''2020-11-05'']
        Map.empty) =
     Inr ([Some (JStr ''2013-07-10''), Some (JStr ''2016-03-01''), Some (JStr ''2020-11-05'')],
          JStr ''2013-07-10'', JStr ''2020-11-05'') \<and>
   map_sum id (\<lambda>r. map (\<lambda>x. x ''timestamp'') (legacy_images (fst r)))
     (create_viewer_config ''2026-01-01T00:00:00'' [frame_noon, frame_morning] Map.empty) =
     Inr [Some (JInt 1593590400000), Some (JInt 1593604800000)]"
proof -
  let ?infos = "[dated_info ''2016-03-01'', dated_info ''2013-07-10'', dated_info ''2020-11-05'']"
  let ?tiles = "[tile_frame ''2016-03-01'', tile_frame ''2013-07-10'', tile_frame ''2020-11-05'']"
  let ?now = "''2026-01-01T00:00:00''"
  note t1 = manifest_sorted_by_date [where now = ?now and infos = ?infos and dir = Map.empty
      and frames = ?tiles]
  note t2 = manifest_sorted_by_date [where now = ?now and infos = ?infos and dir = Map.empty
      and frames = "[frame_noon, frame_morning]"]
  have d: "map date ?infos = [''2016-03-01'', ''2013-07-10'', ''2020-11-05'']"
    by (simp add: dated_info_def)
  have a: "map date (images (fst (write_viewer_config ?now ?infos Map.empty))) =
             [''2013-07-10'', ''2016-03-01'', ''2020-11-05''] \<and>
           date_range (config_metadata (fst (write_viewer_config ?now ?infos Map.empty))) =
             \<lparr>dr_start = ''2013-07-10'', dr_end = ''2020-11-05''\<rparr>"
    using t1 [THEN conjunct1] d
    by (cases "write_viewer_config ?now ?infos Map.empty") simp
  have h1: "?tiles \<noteq> [] \<and>
     (\<forall>x \<in> set ?tiles. x ''timestamp'' = None \<and> (\<forall>i. x ''date'' \<noteq> Some (JInt i)))"
    by (simp add: tile_frame_def)
  from t1 [THEN conjunct2, THEN conjunct1, rule_format, OF h1]
  obtain cfg where "\<exists>dir'. create_viewer_config ?now ?tiles Map.empty = Inr (cfg, dir') \<and>
         legacy_images cfg = sort_key (\<lambda>x. str_of (dict_get x ''date'' (JStr []))) ?tiles \<and>
         legacy_start cfg = dict_get (hd (legacy_images cfg)) ''date'' (JStr ''unknown'') \<and>
         legacy_end cfg = dict_get (last (legacy_images cfg)) ''date'' (JStr ''unknown'')" ..
  then obtain dir' where c1: "create_viewer_config ?now ?tiles Map.empty = Inr (cfg, dir') \<and>
         legacy_images cfg = sort_key (\<lambda>x. str_of (dict_get x ''date'' (JStr []))) ?tiles \<and>
         legacy_start cfg = dict_get (hd (legacy_images cfg)) ''date'' (JStr ''unknown'') \<and>
         legacy_end cfg = dict_get (last (legacy_images cfg)) ''date'' (JStr ''unknown'')" ..
  have s1: "sort_key (\<lambda>x. str_of (dict_get x ''date'' (JStr []))) ?tiles =
      [tile_frame ''2013-07-10'', tile_frame ''2016-03-01'', tile_frame ''2020-11-05'']"
    by (simp add: tile_frame_def dict_get_def)
  have b: "map_sum id (\<lambda>r. (map (\<lambda>x. x ''date'') (legacy_images (fst r)), legacy_start (fst r),
                     legacy_end (fst r)))
     (create_viewer_config ?now ?tiles Map.empty) =
     Inr ([Some (JStr ''2013-07-10''), Some (JStr ''2016-03-01''), Some (JStr ''2020-11-05'')],
          JStr ''2013-07-10'', JStr ''2020-11-05'')"
  proof -
    from c1 [unfolded s1] have cr: "create_viewer_config ?now ?tiles Map.empty = Inr (cfg, dir')"
      and li: "legacy_images cfg =
        [tile_frame ''2013-07-10'', tile_frame ''2016-03-01'', tile_frame ''2020-11-05'']"
      and st: "legacy_start cfg = dict_get (hd (legacy_images cfg)) ''date'' (JStr ''unknown'')"
      and en: "legacy_end cfg = dict_get (last (legacy_images cfg)) ''date'' (JStr ''unknown'')"
      by simp_all
    show ?thesis
      by (simp add: cr st en li) (simp_all add: tile_frame_def dict_get_def)
  qed
  have h2: "[frame_noon, frame_morning] \<noteq> [] \<and>
     (\<forall>x \<in> set [frame_noon, frame_morning]. \<exists>t. x ''timestamp'' = Some (JInt t) \<and> t \<noteq> 0)"
    by (simp add: frame_noon_def frame_morning_def)
  from t2 [THEN conjunct2, THEN conjunct2, rule_format, OF h2]
  obtain cfg2 where "\<exists>dir'. create_viewer_config ?now [frame_noon, frame_morning] Map.empty = Inr (cfg2, dir') \<and>
         legacy_images cfg2 = sort_key (\<lambda>x. int_of (dict_get x ''timestamp'' (JInt 0))) [frame_noon, frame_morning] \<and>
         legacy_start cfg2 = dict_get (hd (legacy_images cfg2)) ''date'' (JStr ''unknown'') \<and>
         legacy_end cfg2 = dict_get (last (legacy_images cfg2)) ''date'' (JStr ''unknown'')" ..
  then obtain dir2 where c2: "create_viewer_config ?now [frame_noon, frame_morning] Map.empty = Inr (cfg2, dir2) \<and>
         legacy_images cfg2 = sort_key (\<lambda>x. int_of (dict_get x ''timestamp'' (JInt 0))) [frame_noon, frame_morning] \<and>
         legacy_start cfg2 = dict_get (hd (legacy_images cfg2)) ''date'' (JStr ''unknown'') \<and>
         legacy_end cfg2 = dict_get (last (legacy_images cfg2)) ''date'' (JStr ''unknown'')" ..
  have s2: "sort_key (\<lambda>x. int_of (dict_get x ''timestamp'' (JInt 0))) [frame_noon, frame_morning] =
      [frame_morning, frame_noon]"
    by (simp add: frame_noon_def frame_morning_def dict_get_def)
  have c: "map_sum id (\<lambda>r. map (\<lambda>x. x ''timestamp'') (legacy_images (fst r)))
     (create_viewer_config ?now [frame_noon, frame_morning] Map.empty) =
     Inr [Some (JInt 1593590400000), Some (JInt 1593604800000)]"
  proof -
    from c2 [unfolded s2] have cr: "create_viewer_config ?now [frame_noon, frame_morning] Map.empty = Inr (cfg2, dir2)"
      and li: "legacy_images cfg2 = [frame_morning, frame_noon]"
      by simp_all
    show ?thesis
      by (simp add: cr li) (simp_all add: frame_noon_def frame_morning_def)
  qed
  from a b c show ?thesis by (intro conjI) simp_all
qed

section \<open>Properties of the alignment\<close>











end
